theory Spec2Isabelle
  imports Complex_Main "HOL-Library.Multiset"
begin

unbundle bit_operations_syntax

section \<open>Strings and numbers of the host language\<close>

text \<open>
  Strings are byte sequences (the UTF-8 encoding of the script's strings). Case conversion
  acts on the ASCII letters; the property names looked up below are ASCII and contain no
  letter that a non-ASCII character lowercases to, so the lookup is not affected by the
  characters left unchanged here.
\<close>

definition toLowerChar :: "char \<Rightarrow> char" where
  "toLowerChar c =
     (let n = (of_char c :: nat) in if 65 \<le> n \<and> n \<le> 90 then char_of (n + 32) else c)"

definition toLowerCase :: "string \<Rightarrow> string" where
  "toLowerCase s = map toLowerChar s"

text \<open>A script number: a finite value (a rational here) or NaN.\<close>

datatype number = Num rat | NaN

section \<open>Data model (src/types/index.ts)\<close>

record TaskStatus =
  status_status :: string
  status_color :: "string option"

record Assignee =
  assignee_id :: rat
  username :: string
  email :: "string option"

record Priority =
  priority_id :: string
  priority_priority :: string
  priority_color :: string

record Tag =
  tag_name :: string
  tag_fg :: "string option"
  tag_bg :: "string option"

datatype json =
    JNull
  | JBool bool
  | JNumber rat
  | JString string
  | JArray "json list"
  | JObject "(string \<times> json) list"

text \<open>ClickUpTaskSchema: an absent (undefined) or null field is \<open>None\<close>.\<close>

record ClickUpTask =
  task_id :: string
  task_name :: string
  description :: "string option"
  status :: TaskStatus
  assignees :: "Assignee list option"
  priority :: "Priority option"
  tags :: "Tag list option"
  due_date :: "string option"
  custom_fields :: "json list option"
  url :: "string option"

datatype ComplexityTag = Fix | Feature

record TicketAnalysis =
  qualityScore :: rat
  qualityGaps :: "string list"
  affectedFiles :: "string list"
  complexityTag :: ComplexityTag
  suggestedApproach :: string

record AnalyzedTicket =
  ticket :: ClickUpTask
  analysis :: TicketAnalysis

section \<open>Priority ranking and sorting (src/tools/sprint-formatter.ts)\<close>

text \<open>
  The value of a property read on the object literal \<open>PRIORITY_ORDER\<close>: one of its own
  numbers, or a member inherited from \<open>Object.prototype\<close> (a function, or the prototype
  object itself for \<open>__proto__\<close>): an object, truthy, not a number, identical only to
  itself.
\<close>

datatype prop_value = Number rat | Inherited string

definition PRIORITY_ORDER :: "(string \<times> rat) list" where
  "PRIORITY_ORDER = [(''urgent'', 1), (''high'', 2), (''normal'', 3), (''low'', 4)]"

definition Object_prototype_names :: "string list" where
  "Object_prototype_names =
     [''constructor'', ''__proto__'', ''hasOwnProperty'', ''isPrototypeOf'',
      ''propertyIsEnumerable'', ''toLocaleString'', ''toString'', ''valueOf'',
      ''__defineGetter__'', ''__defineSetter__'', ''__lookupGetter__'', ''__lookupSetter__'']"

text \<open>\<open>PRIORITY_ORDER[k]\<close>: own properties first, then the prototype; \<open>None\<close> is undefined.\<close>

definition PRIORITY_ORDER_get :: "string \<Rightarrow> prop_value option" where
  "PRIORITY_ORDER_get k =
     (case map_of PRIORITY_ORDER k of
        Some n \<Rightarrow> Some (Number n)
      | None \<Rightarrow> if k \<in> set Object_prototype_names then Some (Inherited k) else None)"

fun truthy :: "prop_value \<Rightarrow> bool" where
  "truthy (Number n) = (n \<noteq> 0)"
| "truthy (Inherited k) = True"

definition getPriorityOrder :: "string option \<Rightarrow> prop_value" where
  "getPriorityOrder p =
     (case p of
        None \<Rightarrow> Number 5
      | Some s \<Rightarrow>
          if s = [] then Number 5
          else (case PRIORITY_ORDER_get (toLowerCase s) of
                  None \<Rightarrow> Number 5
                | Some v \<Rightarrow> if truthy v then v else Number 5))"

text \<open>\<open>a - b\<close> on two such values: an inherited object converts to NaN.\<close>

fun minus_value :: "prop_value \<Rightarrow> prop_value \<Rightarrow> number" where
  "minus_value (Number a) (Number b) = Num (a - b)"
| "minus_value _ _ = NaN"

text \<open>\<open>a.ticket.priority?.priority\<close>\<close>

definition priority_of :: "AnalyzedTicket \<Rightarrow> string option" where
  "priority_of a = map_option priority_priority (priority (ticket a))"

text \<open>The comparator passed to \<open>sort\<close> in \<open>sortTickets\<close>.\<close>

definition compareTickets :: "AnalyzedTicket \<Rightarrow> AnalyzedTicket \<Rightarrow> number" where
  "compareTickets a b =
     (let priorityA = getPriorityOrder (priority_of a);
          priorityB = getPriorityOrder (priority_of b)
      in if priorityA \<noteq> priorityB then minus_value priorityA priorityB
         else if qualityScore (analysis a) \<noteq> qualityScore (analysis b)
           then Num (qualityScore (analysis b) - qualityScore (analysis a))
         else if complexityTag (analysis a) \<noteq> complexityTag (analysis b)
           then (if complexityTag (analysis a) = Fix then Num (- 1) else Num 1)
         else Num 0)"

text \<open>
  \<open>Array.prototype.sort\<close> with a comparator: a NaN result counts as \<open>+0\<close>, and the sort
  is stable (ECMAScript 2019). For a consistent comparator the result is the unique stable
  sorted arrangement, which stable insertion computes. For an inconsistent comparator the
  order is left to the implementation, and this definition is one admissible choice, not
  the engine's; the order of a sorted list is stated below only where the comparator is
  consistent: on lists of tickets whose rank is a number, and on lists of two tickets.
\<close>

definition SortCompare :: "('a \<Rightarrow> 'a \<Rightarrow> number) \<Rightarrow> 'a \<Rightarrow> 'a \<Rightarrow> rat" where
  "SortCompare comparefn x y = (case comparefn x y of NaN \<Rightarrow> 0 | Num v \<Rightarrow> v)"

fun sort_insert :: "('a \<Rightarrow> 'a \<Rightarrow> number) \<Rightarrow> 'a \<Rightarrow> 'a list \<Rightarrow> 'a list" where
  "sort_insert comparefn x [] = [x]"
| "sort_insert comparefn x (y # ys) =
     (if SortCompare comparefn x y \<le> 0 then x # y # ys
      else y # sort_insert comparefn x ys)"

definition Array_sort :: "('a \<Rightarrow> 'a \<Rightarrow> number) \<Rightarrow> 'a list \<Rightarrow> 'a list" where
  "Array_sort comparefn xs = foldr (sort_insert comparefn) xs []"

definition sortTickets :: "AnalyzedTicket list \<Rightarrow> AnalyzedTicket list" where
  "sortTickets tickets = Array_sort compareTickets tickets"


section \<open>Errors and promises\<close>

text \<open>
  What a script can throw: an \<open>Error\<close> object with its message, a runtime
  \<open>TypeError\<close>, the \<open>AbortError\<close> raised by an aborted request, or a value that is not
  an \<open>Error\<close> at all. An asynchronous call that settles is a sum: \<open>Inl\<close> the rejection,
  \<open>Inr\<close> the fulfilment value.
\<close>

datatype js_error = Error string | TypeError string | SyntaxError string | AbortError | Thrown string

fun instanceof_Error :: "js_error \<Rightarrow> bool" where
  "instanceof_Error (Thrown v) = False"
| "instanceof_Error _ = True"

definition try_catch :: "js_error + 'a \<Rightarrow> (js_error \<Rightarrow> js_error + 'a) \<Rightarrow> js_error + 'a" where
  "try_catch body handler = (case body of Inl e \<Rightarrow> handler e | Inr v \<Rightarrow> Inr v)"

text \<open>\<open>Promise.all\<close>: the values in the order of the promises, or a rejection.\<close>

fun Promise_all :: "(js_error + 'a) list \<Rightarrow> js_error + 'a list" where
  "Promise_all [] = Inr []"
| "Promise_all (Inl e # ps) = Inl e"
| "Promise_all (Inr v # ps) = (case Promise_all ps of Inl e \<Rightarrow> Inl e | Inr vs \<Rightarrow> Inr (v # vs))"

section \<open>String helpers\<close>

definition nl :: string where
  "nl = [CHR 0x0A]"

fun join :: "string \<Rightarrow> string list \<Rightarrow> string" where
  "join sep [] = []"
| "join sep [x] = x"
| "join sep (x # y # ys) = x @ sep @ join sep (y # ys)"

text \<open>\<open>xs.slice(i, j)\<close> for indices \<open>0 \<le> i \<le> j\<close>.\<close>

definition slice :: "'a list \<Rightarrow> nat \<Rightarrow> nat \<Rightarrow> 'a list" where
  "slice xs i j = take (j - i) (drop i xs)"

text \<open>Decimal text of a non-negative integer (a count, an index, a status code).\<close>

definition digit_char :: "nat \<Rightarrow> char" where
  "digit_char d = char_of (48 + d)"

fun show_nat :: "nat \<Rightarrow> string" where
  "show_nat n = (if n < 10 then [digit_char n] else show_nat (n div 10) @ [digit_char (n mod 10)])"

declare show_nat.simps [simp del]

section \<open>Item analyzer (analyzeTicket in the workflow, analyzeTicketTool)\<close>

record RouteInfo =
  route_path :: string
  route_files :: "string list"
  route_exports :: "string list option"

record CodebaseMap =
  routes :: "RouteInfo list"
  components :: "string list"
  actions :: "string list"
  scannedAt :: "string option"

definition ANALYSIS_SYSTEM_PROMPT :: string where
  "ANALYSIS_SYSTEM_PROMPT =
     ''You are a senior software developer reviewing sprint tickets for quality and implementation planning.'' @ nl @
     ''Assess quality 1-5, identify gaps, map to affected files, classify as fix/feature, provide implementation approach.''"

text \<open>\<open>x || d\<close> on an optional string: absent and empty are falsy.\<close>

definition or_default :: "string option \<Rightarrow> string \<Rightarrow> string" where
  "or_default x d = (case x of None \<Rightarrow> d | Some s \<Rightarrow> if s = [] then d else s)"

definition route_line :: "RouteInfo \<Rightarrow> string" where
  "route_line r = route_path r @ '': ['' @ join '', '' (route_files r) @ '']''"

definition userPrompt :: "ClickUpTask \<Rightarrow> CodebaseMap \<Rightarrow> string" where
  "userPrompt t codebaseMap =
     ''Analyze this ticket:'' @ nl @
     ''Title: '' @ task_name t @ nl @
     ''Description: '' @ or_default (description t) ''No description'' @ nl @
     ''Status: '' @ status_status (status t) @ nl @
     ''Priority: '' @ or_default (map_option priority_priority (priority t)) ''Not set'' @ nl @
     nl @
     ''CODEBASE:'' @ nl @
     ''Routes: '' @ join nl (map route_line (routes codebaseMap)) @ nl @
     ''Components: '' @ join '', '' (slice (components codebaseMap) 0 50) @ nl @
     ''Actions: '' @ join '', '' (actions codebaseMap) @ nl @
     nl @
     ''Return JSON: { qualityScore, qualityGaps, affectedFiles, complexityTag, suggestedApproach }''"

text \<open>
  The generative model is outside the program. \<open>generateObject\<close> is a parameter: given the
  number of calls made before this one, the system prompt and the user prompt, the call
  either fulfils with an object that satisfies \<open>TicketAnalysisSchema\<close> or rejects (service
  error, output that does not match the schema, timeout).
\<close>

type_synonym model = "nat \<Rightarrow> string \<Rightarrow> string \<Rightarrow> js_error + TicketAnalysis"

definition fallbackAnalysis :: TicketAnalysis where
  "fallbackAnalysis =
     \<lparr> qualityScore = 3,
       qualityGaps = [''Analysis failed - manual review needed''],
       affectedFiles = [],
       complexityTag = Feature,
       suggestedApproach = ''Review ticket manually'' \<rparr>"

text \<open>\<open>analyzeTicket\<close>; the second component counts the model calls made so far.\<close>

definition analyzeTicket ::
  "model \<Rightarrow> ClickUpTask \<Rightarrow> CodebaseMap \<Rightarrow> nat \<Rightarrow> (js_error + TicketAnalysis) \<times> nat" where
  "analyzeTicket generateObject t codebaseMap calls =
     (try_catch (generateObject calls ANALYSIS_SYSTEM_PROMPT (userPrompt t codebaseMap))
        (\<lambda>e. Inr fallbackAnalysis),
      Suc calls)"

text \<open>The tool variant of the analyzer: its own prompts and its own fallback.\<close>

definition SYSTEM_PROMPT :: string where
  "SYSTEM_PROMPT = join nl
     [''You are a senior software developer reviewing sprint tickets for quality and implementation planning.'',
      [],
      ''Your tasks:'',
      ''1. Assess the ticket's quality on a scale of 1-5 based on:'',
      ''   - Clarity of requirements'',
      ''   - Presence of acceptance criteria'',
      ''   - Sufficient technical details'',
      ''   - Error handling considerations'',
      ''   - Edge cases mentioned'',
      [],
      ''2. Identify quality gaps with specific, actionable feedback'',
      [],
      ''3. Map the ticket to affected files in the codebase by:'',
      ''   - Matching ticket description keywords to file paths'',
      ''   - Considering the feature area (auth, profile, ui, etc.)'',
      ''   - Identifying related components, pages, and server actions'',
      ''   - Being specific with file paths (use the exact paths from codebaseMap)'',
      [],
      ''4. Classify as 'fix' or 'feature':'',
      ''   - 'fix': Bug fixes, styling updates, small corrections'',
      ''   - 'feature': New functionality, major changes, new pages'',
      [],
      ''5. Provide a 1-2 sentence implementation approach that is specific and actionable'',
      [],
      ''Be thorough but concise. Focus on practical guidance that helps developers implement the ticket efficiently.'']"

definition toolFallbackAnalysis :: TicketAnalysis where
  "toolFallbackAnalysis =
     \<lparr> qualityScore = 3,
       qualityGaps = [''Unable to perform detailed analysis due to technical error''],
       affectedFiles = [],
       complexityTag = Feature,
       suggestedApproach = ''Review ticket requirements and identify relevant files manually'' \<rparr>"

definition toolUserPrompt :: "ClickUpTask \<Rightarrow> CodebaseMap \<Rightarrow> string" where
  "toolUserPrompt t codebaseMap =
     ''Analyze this ticket and map it to the codebase:'' @ nl @ nl @
     ''TICKET:'' @ nl @
     ''Title: '' @ task_name t @ nl @
     ''Description: '' @ or_default (description t) ''No description provided'' @ nl @
     ''Status: '' @ status_status (status t) @ nl @
     ''Priority: '' @ or_default (map_option priority_priority (priority t)) ''Not set'' @ nl @
     ''Tags: '' @ or_default (map_option (\<lambda>ts. join '', '' (map tag_name ts)) (tags t)) ''None'' @ nl @
     ''URL: '' @ or_default (url t) ''N/A'' @ nl @ nl @
     ''CODEBASE STRUCTURE:'' @ nl @
     ''Routes:'' @ nl @
     join nl (map (\<lambda>r. ''  '' @ route_line r) (routes codebaseMap)) @ nl @ nl @
     ''Components:'' @ nl @
     join (nl @ ''  '') (slice (components codebaseMap) 0 50) @
     (if length (components codebaseMap) > 50 then nl @ ''  ... and more'' else []) @ nl @ nl @
     ''Server Actions:'' @ nl @
     join (nl @ ''  '') (actions codebaseMap) @ nl @ nl @
     ''Provide your analysis as a JSON object with: qualityScore, qualityGaps, affectedFiles, complexityTag, suggestedApproach.''"

definition analyzeTicketTool ::
  "model \<Rightarrow> ClickUpTask \<Rightarrow> CodebaseMap \<Rightarrow> nat \<Rightarrow> (js_error + TicketAnalysis) \<times> nat" where
  "analyzeTicketTool generateObject t codebaseMap calls =
     (try_catch (generateObject calls SYSTEM_PROMPT (toolUserPrompt t codebaseMap))
        (\<lambda>e. Inr toolFallbackAnalysis),
      Suc calls)"

section \<open>Batch orchestrator (analyzeTicketsStep)\<close>

record AnalyzeInput =
  in_tasks :: "ClickUpTask list"
  in_listId :: string
  in_codebaseMap :: CodebaseMap
  in_webhookUrl :: string
  in_webhookSecret :: "string option"

record DeliverInput =
  analyzedTickets :: "AnalyzedTicket list"
  listId :: string
  webhookUrl :: string
  webhookSecret :: "string option"

definition batchSize :: nat where
  "batchSize = 5"

text \<open>
  \<open>batch.map(async (ticket) => ...)\<close>: every callback starts its model call at once, in
  the order of the batch; each promise settles with the pair of ticket and analysis.
\<close>

fun analyze_batch ::
  "model \<Rightarrow> CodebaseMap \<Rightarrow> ClickUpTask list \<Rightarrow> nat \<Rightarrow> (js_error + AnalyzedTicket) list \<times> nat" where
  "analyze_batch generateObject codebaseMap [] calls = ([], calls)"
| "analyze_batch generateObject codebaseMap (t # ts) calls =
     (case analyzeTicket generateObject t codebaseMap calls of
        (r, calls') \<Rightarrow>
          (case analyze_batch generateObject codebaseMap ts calls' of
             (rs, calls'') \<Rightarrow>
               (map_sum id (\<lambda>a. \<lparr> ticket = t, analysis = a \<rparr>) r # rs, calls'')))"

text \<open>The \<open>for\<close> loop over the batches, with the index \<open>i\<close> and the results so far.\<close>

function analyze_loop ::
  "model \<Rightarrow> CodebaseMap \<Rightarrow> ClickUpTask list \<Rightarrow> nat \<Rightarrow> AnalyzedTicket list \<Rightarrow> nat
     \<Rightarrow> (js_error + AnalyzedTicket list) \<times> nat" where
  "analyze_loop generateObject codebaseMap tasks i results calls =
     (if i < length tasks then
        (case analyze_batch generateObject codebaseMap (slice tasks i (i + batchSize)) calls of
           (ps, calls') \<Rightarrow>
             (case Promise_all ps of
                Inl e \<Rightarrow> (Inl e, calls')
              | Inr batchResults \<Rightarrow>
                  analyze_loop generateObject codebaseMap tasks (i + batchSize)
                    (results @ batchResults) calls'))
      else (Inr results, calls))"
  by pat_completeness auto
termination
  by (relation "measure (\<lambda>(g, c, tasks, i, r, n). length tasks - i)") (auto simp: batchSize_def)

declare analyze_loop.simps [simp del]

definition analyzeTicketsStep ::
  "model \<Rightarrow> AnalyzeInput \<Rightarrow> nat \<Rightarrow> (js_error + DeliverInput) \<times> nat" where
  "analyzeTicketsStep generateObject inputData calls =
     (if length (in_tasks inputData) = 0 then
        (Inr \<lparr> analyzedTickets = [], listId = in_listId inputData,
               webhookUrl = in_webhookUrl inputData,
               webhookSecret = in_webhookSecret inputData \<rparr>, calls)
      else
        (case analyze_loop generateObject (in_codebaseMap inputData) (in_tasks inputData) 0 [] calls of
           (r, calls') \<Rightarrow>
             (map_sum id
                (\<lambda>results. \<lparr> analyzedTickets = results, listId = in_listId inputData,
                               webhookUrl = in_webhookUrl inputData,
                               webhookSecret = in_webhookSecret inputData \<rparr>) r,
              calls')))"

section \<open>Delivery client (deliverWebhook) and the receiver's verification\<close>

record http_request =
  req_method :: string
  req_url :: string
  req_headers :: "(string \<times> string) list"
  req_body :: string

record http_response =
  resp_status :: nat
  resp_statusText :: string
  resp_json :: "js_error + json"

text \<open>\<open>response.ok\<close>\<close>

definition response_ok :: "http_response \<Rightarrow> bool" where
  "response_ok r = (200 \<le> resp_status r \<and> resp_status r \<le> 299)"

text \<open>
  \<open>createHmac('sha256', key).update(data).digest('hex')\<close> is HMAC (RFC 2104) over SHA-256
  with its block size of 64 bytes: a key longer than a block is hashed first, a shorter one
  is padded with zero bytes. The hash function itself is a parameter.
\<close>

definition xor_char :: "char \<Rightarrow> char \<Rightarrow> char" where
  "xor_char c d = char_of ((of_char c :: nat) XOR (of_char d :: nat))"

text \<open>The key block: the key, hashed first when longer than a block, padded with zeros.\<close>

definition key_block :: "(string \<Rightarrow> string) \<Rightarrow> nat \<Rightarrow> string \<Rightarrow> string" where
  "key_block H B key =
     (let k0 = (if length key > B then H key else key)
      in k0 @ replicate (B - length k0) (CHR 0x00))"

definition hmac :: "(string \<Rightarrow> string) \<Rightarrow> nat \<Rightarrow> string \<Rightarrow> string \<Rightarrow> string" where
  "hmac H B key data =
     (let k = key_block H B key
      in H (map (xor_char (CHR 0x5C)) k @ H (map (xor_char (CHR 0x36)) k @ data)))"

text \<open>The two messages that are hashed when the HMAC of \<open>data\<close> is computed.\<close>

definition hashed :: "(string \<Rightarrow> string) \<Rightarrow> nat \<Rightarrow> string \<Rightarrow> string \<Rightarrow> string set" where
  "hashed H B key data =
     (let k = key_block H B key
      in {map (xor_char (CHR 0x36)) k @ data,
          map (xor_char (CHR 0x5C)) k @ H (map (xor_char (CHR 0x36)) k @ data)})"

definition hex_digit :: "nat \<Rightarrow> char" where
  "hex_digit d = (if d < 10 then char_of (48 + d) else char_of (87 + d))"

definition hex_of_byte :: "char \<Rightarrow> string" where
  "hex_of_byte c = (let n = (of_char c :: nat) in [hex_digit (n div 16), hex_digit (n mod 16)])"

definition hex :: "string \<Rightarrow> string" where
  "hex bs = concat (map hex_of_byte bs)"

definition hmac_sha256_hex :: "(string \<Rightarrow> string) \<Rightarrow> string \<Rightarrow> string \<Rightarrow> string" where
  "hmac_sha256_hex sha256 key data = hex (hmac sha256 64 key data)"

text \<open>The optional \<open>secret\<close> argument is used when it is truthy: present and not empty.\<close>

definition signature_of :: "(string \<Rightarrow> string) \<Rightarrow> string option \<Rightarrow> string \<Rightarrow> string option" where
  "signature_of sha256 secret body =
     (case secret of
        None \<Rightarrow> None
      | Some s \<Rightarrow> if s = [] then None else Some (''sha256='' @ hmac_sha256_hex sha256 s body))"

definition webhook_request ::
  "(string \<Rightarrow> string) \<Rightarrow> string \<Rightarrow> string \<Rightarrow> string option \<Rightarrow> http_request" where
  "webhook_request sha256 target body secret =
     \<lparr> req_method = ''POST'',
       req_url = target,
       req_headers =
         [(''Content-Type'', ''application/json''), (''User-Agent'', ''Sprint-Pilot/1.0'')] @
         (case signature_of sha256 secret body of
            None \<Rightarrow> []
          | Some sg \<Rightarrow> if sg = [] then [] else [(''X-Sprint-Pilot-Signature'', sg)]),
       req_body = body \<rparr>"

text \<open>
  The destination is outside the program: a parameter that, for the attempt number and the
  request, gives how the request settles (a rejection for a network failure, or a
  response). The events the client produces are the requests it sends and the delays it
  waits, in order.
\<close>

type_synonym destination = "nat \<Rightarrow> http_request \<Rightarrow> js_error + http_response"

datatype event = Request http_request | Delay nat

text \<open>The body of the \<open>try\<close> block for one attempt, after the request is built.\<close>

definition attempt_outcome :: "destination \<Rightarrow> nat \<Rightarrow> http_request \<Rightarrow> js_error + unit" where
  "attempt_outcome dst attempt req =
     (case dst attempt req of
        Inl e \<Rightarrow> Inl e
      | Inr response \<Rightarrow>
          if \<not> response_ok response
          then Inl (Error (''Webhook delivery failed: '' @ show_nat (resp_status response) @ '' '' @
                             resp_statusText response))
          else Inr ())"

function deliver_loop ::
  "(string \<Rightarrow> string) \<Rightarrow> ('p \<Rightarrow> string) \<Rightarrow> destination \<Rightarrow> string \<Rightarrow> 'p \<Rightarrow> string option \<Rightarrow> int
     \<Rightarrow> nat \<Rightarrow> js_error option \<Rightarrow> event list \<Rightarrow> (js_error + unit) \<times> event list" where
  "deliver_loop sha256 stringify dst whUrl payload secret retries attempt lastError trace =
     (if int attempt < retries then
        (let req = webhook_request sha256 whUrl (stringify payload) secret
         in case attempt_outcome dst attempt req of
              Inr u \<Rightarrow> (Inr (), trace @ [Request req])
            | Inl error \<Rightarrow>
                deliver_loop sha256 stringify dst whUrl payload secret retries (Suc attempt)
                  (Some (if instanceof_Error error then error else Error ''Unknown error''))
                  (trace @ [Request req] @
                    (if int attempt < retries - 1 then [Delay (2 ^ attempt * 1000)] else [])))
      else
        (Inl (case lastError of
                Some e \<Rightarrow> e
              | None \<Rightarrow> Error ''Webhook delivery failed after retries''),
         trace))"
  by pat_completeness auto
termination
  by (relation "measure (\<lambda>(h, s, d, u, p, sec, retries, attempt, e, t). nat (retries - int attempt))")
     auto

declare deliver_loop.simps [simp del]

text \<open>\<open>deliverWebhook(webhookUrl, payload, secret, retries)\<close>; delays are in milliseconds.\<close>

definition deliverWebhook ::
  "(string \<Rightarrow> string) \<Rightarrow> ('p \<Rightarrow> string) \<Rightarrow> destination \<Rightarrow> string \<Rightarrow> 'p \<Rightarrow> string option \<Rightarrow> int
     \<Rightarrow> (js_error + unit) \<times> event list" where
  "deliverWebhook sha256 stringify dst whUrl payload secret retries =
     deliver_loop sha256 stringify dst whUrl payload secret retries 0 None []"

definition default_retries :: int where
  "default_retries = 3"

text \<open>The receiver (webhook-receiver.ts): \<open>verifySignature\<close> and the check in the handler.\<close>

definition verifySignature :: "(string \<Rightarrow> string) \<Rightarrow> string \<Rightarrow> string \<Rightarrow> string \<Rightarrow> bool" where
  "verifySignature sha256 payload signature secret =
     (let expectedSignature = ''sha256='' @ hmac_sha256_hex sha256 secret payload
      in signature = expectedSignature)"

text \<open>\<open>req.headers[name]\<close>: the server stores header names in lower case.\<close>

definition header :: "http_request \<Rightarrow> string \<Rightarrow> string option" where
  "header req name = map_of (map (\<lambda>(k, v). (toLowerCase k, v)) (req_headers req)) name"

datatype verdict = Unauthorized string | Accepted

definition receiver_verify :: "(string \<Rightarrow> string) \<Rightarrow> string option \<Rightarrow> http_request \<Rightarrow> verdict" where
  "receiver_verify sha256 secret req =
     (case secret of
        None \<Rightarrow> Accepted
      | Some s \<Rightarrow>
          if s = [] then Accepted
          else (case header req ''x-sprint-pilot-signature'' of
                  None \<Rightarrow> Unauthorized ''Missing signature header''
                | Some signature \<Rightarrow>
                    if signature = [] then Unauthorized ''Missing signature header''
                    else if \<not> verifySignature sha256 (req_body req) signature s
                      then Unauthorized ''Invalid signature''
                    else Accepted))"

section \<open>Pipeline controller (formatAndDeliverStep)\<close>

record SprintMetadata =
  syncTimestamp :: string
  ticketCount :: nat
  meta_listId :: string
  listName :: "string option"

record WebhookPayload =
  sprintMarkdown :: string
  payload_tickets :: "AnalyzedTicket list"
  payload_metadata :: SprintMetadata

record StepResult =
  success :: bool
  result_ticketCount :: nat
  webhookDelivered :: bool
  message :: string

text \<open>
  What the step takes from its surroundings: the hash function, \<open>JSON.stringify\<close> on the
  payload, the destination, the clock (\<open>now k\<close> is the \<open>k\<close>-th reading of
  \<open>new Date().toISOString()\<close> in the step), the text of a number (\<open>`${n}`\<close>), and the
  text of the mean of a list of numbers to one decimal place (floating-point division and
  \<open>toFixed(1)\<close>).
\<close>

record Runtime =
  sha256 :: "string \<Rightarrow> string"
  JSON_stringify :: "WebhookPayload \<Rightarrow> string"
  dest :: destination
  now :: "nat \<Rightarrow> string"
  numberToString :: "rat \<Rightarrow> string"
  meanToFixed1 :: "rat list \<Rightarrow> string"

definition toUpperChar :: "char \<Rightarrow> char" where
  "toUpperChar c =
     (let n = (of_char c :: nat) in if 97 \<le> n \<and> n \<le> 122 then char_of (n - 32) else c)"

definition toUpperCase :: "string \<Rightarrow> string" where
  "toUpperCase s = map toUpperChar s"

fun tag_string :: "ComplexityTag \<Rightarrow> string" where
  "tag_string Fix = ''fix''"
| "tag_string Feature = ''feature''"

text \<open>\<open>s.split('T')[0]\<close>\<close>

definition date_part :: "string \<Rightarrow> string" where
  "date_part s = takeWhile (\<lambda>c. c \<noteq> CHR ''T'') s"

text \<open>The lines pushed for one item by the \<open>forEach\<close> of the step.\<close>

definition item_lines :: "Runtime \<Rightarrow> AnalyzedTicket \<Rightarrow> nat \<Rightarrow> string list" where
  "item_lines rt item index =
     [''### '' @ show_nat (index + 1) @ ''. ['' @ toUpperCase (tag_string (complexityTag (analysis item))) @
        ''] '' @ task_name (ticket item),
      ''- **ClickUp ID**: '' @ task_id (ticket item),
      ''- **Status**: '' @ status_status (status (ticket item)),
      ''- **Quality**: '' @ numberToString rt (qualityScore (analysis item)) @ ''/5''] @
     (if length (affectedFiles (analysis item)) > 0
      then [''- **Affected files**: '' @ join '', '' (affectedFiles (analysis item))] else []) @
     [''- **Suggested approach**: '' @ suggestedApproach (analysis item),
      [],
      ''---'',
      []]"

text \<open>
  The report of the step. A timestamp produced by \<open>toISOString\<close> is unchanged by
  \<open>new Date(...).toISOString()\<close>.
\<close>

definition step_markdown_lines ::
  "Runtime \<Rightarrow> SprintMetadata \<Rightarrow> AnalyzedTicket list \<Rightarrow> string \<Rightarrow> string list" where
  "step_markdown_lines rt metadata tickets lid =
     [''# Sprint: '' @ date_part (syncTimestamp metadata),
      [],
      ''Synced from ClickUp List '' @ [CHR 0x22] @ or_default (listName metadata) lid @ [CHR 0x22] @
        '' at '' @ syncTimestamp metadata,
      ''Total tickets: '' @ show_nat (ticketCount metadata),
      [],
      ''**Summary:**'',
      ''- Fixes: '' @ show_nat (length (filter (\<lambda>t. complexityTag (analysis t) = Fix) tickets)),
      ''- Features: '' @ show_nat (length (filter (\<lambda>t. complexityTag (analysis t) = Feature) tickets)),
      ''- Average Quality Score: '' @
        (if length tickets > 0 then meanToFixed1 rt (map (\<lambda>t. qualityScore (analysis t)) tickets)
         else ''0'') @ ''/5'',
      [],
      ''## Tickets (ordered by priority)'',
      []] @
     concat (map (\<lambda>(index, item). item_lines rt item index) (enumerate 0 tickets))"

text \<open>The payload object the step hands to the delivery client.\<close>

definition step_payload :: "Runtime \<Rightarrow> DeliverInput \<Rightarrow> WebhookPayload" where
  "step_payload rt inputData =
     (let metadata = \<lparr> syncTimestamp = now rt 0,
                       ticketCount = length (analyzedTickets inputData),
                       meta_listId = listId inputData,
                       listName = Some (''Sprint '' @ date_part (now rt 1)) \<rparr>;
          markdown = join nl (step_markdown_lines rt metadata (analyzedTickets inputData)
                                (listId inputData))
      in \<lparr> sprintMarkdown = markdown,
           payload_tickets = analyzedTickets inputData,
           payload_metadata =
             \<lparr> syncTimestamp = now rt 2,
               ticketCount = length (analyzedTickets inputData),
               meta_listId = listId inputData,
               listName = None \<rparr> \<rparr>)"

definition formatAndDeliverStep :: "Runtime \<Rightarrow> DeliverInput \<Rightarrow> StepResult \<times> event list" where
  "formatAndDeliverStep rt inputData =
     (if length (analyzedTickets inputData) = 0 then
        (\<lparr> success = True, result_ticketCount = 0, webhookDelivered = False,
           message = ''No tickets found in the list'' \<rparr>, [])
      else
        (case deliverWebhook (sha256 rt) (JSON_stringify rt) (dest rt) (webhookUrl inputData)
                (step_payload rt inputData) (webhookSecret inputData) default_retries of
           (r, trace) \<Rightarrow>
             (let delivered = (case r of Inr u \<Rightarrow> True | Inl e \<Rightarrow> False)
              in (\<lparr> success = True,
                     result_ticketCount = length (analyzedTickets inputData),
                     webhookDelivered = delivered,
                     message =
                       (if delivered
                        then ''Successfully analyzed '' @ show_nat (length (analyzedTickets inputData)) @
                             '' tickets and delivered to webhook''
                        else ''Analyzed '' @ show_nat (length (analyzedTickets inputData)) @
                             '' tickets but webhook delivery failed'') \<rparr>,
                  trace))))"

text \<open>
  The workflow after the fetch step: \<open>.then(analyzeTicketsStep).then(formatAndDeliverStep)\<close>.
  A step that rejects ends the run with its error.
\<close>

definition analyze_then_deliver ::
  "model \<Rightarrow> Runtime \<Rightarrow> AnalyzeInput \<Rightarrow> js_error + (StepResult \<times> event list)" where
  "analyze_then_deliver generateObject rt fetched =
     (case fst (analyzeTicketsStep generateObject fetched 0) of
        Inl e \<Rightarrow> Inl e
      | Inr analyzed \<Rightarrow> Inr (formatAndDeliverStep rt analyzed))"

section \<open>Task source client (fetchClickUpTasks in the workflow, clickupSyncTool)\<close>

definition bind_err :: "js_error + 'a \<Rightarrow> ('a \<Rightarrow> js_error + 'b) \<Rightarrow> js_error + 'b" where
  "bind_err r f = (case r of Inl e \<Rightarrow> Inl e | Inr v \<Rightarrow> f v)"

subsection \<open>Values read from the response body\<close>

text \<open>
  A \<open>JObject\<close> lists the own properties of the parsed object, each key once. The property
  names the client reads (\<open>tasks\<close>, \<open>id\<close>, \<open>name\<close>, \<open>description\<close>, \<open>status\<close>,
  \<open>assignees\<close>, \<open>priority\<close>, \<open>tags\<close>, \<open>due_date\<close>, \<open>custom_fields\<close>, \<open>url\<close>) are not
  members of any built-in prototype, so a read on a string, number, boolean or array gives
  undefined (\<open>None\<close>); a read on \<open>null\<close> throws.
\<close>

definition get_prop :: "json \<Rightarrow> string \<Rightarrow> js_error + json option" where
  "get_prop v k =
     (case v of
        JNull \<Rightarrow> Inl (TypeError (''Cannot read properties of null (reading '' @ [CHR 0x27] @ k @
                                   [CHR 0x27] @ '')''))
      | JObject kvs \<Rightarrow> Inr (map_of kvs k)
      | _ \<Rightarrow> Inr None)"

text \<open>\<open>v?.k\<close> on an optional value\<close>

definition optional_get :: "json option \<Rightarrow> string \<Rightarrow> json option" where
  "optional_get v k =
     (case v of
        Some (JObject kvs) \<Rightarrow> map_of kvs k
      | _ \<Rightarrow> None)"

fun js_truthy :: "json option \<Rightarrow> bool" where
  "js_truthy None = False"
| "js_truthy (Some JNull) = False"
| "js_truthy (Some (JBool b)) = b"
| "js_truthy (Some (JNumber n)) = (n \<noteq> 0)"
| "js_truthy (Some (JString s)) = (s \<noteq> [])"
| "js_truthy (Some (JArray xs)) = True"
| "js_truthy (Some (JObject kvs)) = True"

text \<open>\<open>x || d\<close>\<close>

definition or_else :: "json option \<Rightarrow> json \<Rightarrow> json" where
  "or_else x d = (if js_truthy x then the x else d)"

text \<open>
  \<open>String(v)\<close> and \<open>`${v}`\<close>; the text of a number is a parameter. An object is converted
  by its \<open>toString\<close>: the inherited one gives \<open>[object Object]\<close>, but an own property of
  that name, which in a parsed body is never a function, hides it, and the conversion then
  throws (the inherited \<open>valueOf\<close> returns the object itself). An array joins the texts of
  its elements with commas, null elements giving the empty text.
\<close>

fun js_String :: "(rat \<Rightarrow> string) \<Rightarrow> json \<Rightarrow> js_error + string"
  and js_String_elems :: "(rat \<Rightarrow> string) \<Rightarrow> json list \<Rightarrow> js_error + string list" where
  "js_String f JNull = Inr ''null''"
| "js_String f (JBool b) = Inr (if b then ''true'' else ''false'')"
| "js_String f (JNumber n) = Inr (f n)"
| "js_String f (JString s) = Inr s"
| "js_String f (JArray xs) =
     (case js_String_elems f xs of Inl e \<Rightarrow> Inl e | Inr ss \<Rightarrow> Inr (join '','' ss))"
| "js_String f (JObject kvs) =
     (case map_of kvs ''toString'' of
        None \<Rightarrow> Inr ''[object Object]''
      | Some own \<Rightarrow> Inl (TypeError ''Cannot convert object to primitive value''))"
| "js_String_elems f [] = Inr []"
| "js_String_elems f (x # xs) =
     (case (case x of JNull \<Rightarrow> Inr [] | _ \<Rightarrow> js_String f x) of
        Inl e \<Rightarrow> Inl e
      | Inr s \<Rightarrow>
          (case js_String_elems f xs of Inl e \<Rightarrow> Inl e | Inr ss \<Rightarrow> Inr (s # ss)))"

definition String_of :: "(rat \<Rightarrow> string) \<Rightarrow> json option \<Rightarrow> js_error + string" where
  "String_of f v = (case v of None \<Rightarrow> Inr ''undefined'' | Some j \<Rightarrow> js_String f j)"

subsection \<open>Strict validation: ClickUpTaskSchema.parse\<close>

text \<open>Each validator gives \<open>None\<close> when the value does not match.\<close>

definition parse_string :: "json option \<Rightarrow> string option" where
  "parse_string v = (case v of Some (JString s) \<Rightarrow> Some s | _ \<Rightarrow> None)"

definition parse_number :: "json option \<Rightarrow> rat option" where
  "parse_number v = (case v of Some (JNumber n) \<Rightarrow> Some n | _ \<Rightarrow> None)"

text \<open>\<open>.optional()\<close>: undefined is accepted.\<close>

definition optional :: "(json option \<Rightarrow> 'a option) \<Rightarrow> json option \<Rightarrow> 'a option option" where
  "optional p v = (case v of None \<Rightarrow> Some None | Some j \<Rightarrow> map_option Some (p v))"

text \<open>\<open>.nullable().optional()\<close>: undefined and null are accepted.\<close>

definition nullable_optional :: "(json option \<Rightarrow> 'a option) \<Rightarrow> json option \<Rightarrow> 'a option option" where
  "nullable_optional p v =
     (case v of None \<Rightarrow> Some None | Some JNull \<Rightarrow> Some None | Some j \<Rightarrow> map_option Some (p v))"

definition parse_array :: "(json option \<Rightarrow> 'a option) \<Rightarrow> json option \<Rightarrow> 'a list option" where
  "parse_array p v = (case v of Some (JArray xs) \<Rightarrow> those (map (\<lambda>x. p (Some x)) xs) | _ \<Rightarrow> None)"

definition parse_status :: "json option \<Rightarrow> TaskStatus option" where
  "parse_status v =
     (case v of
        Some (JObject kvs) \<Rightarrow>
          Option.bind (parse_string (map_of kvs ''status'')) (\<lambda>s.
          Option.bind (optional parse_string (map_of kvs ''color'')) (\<lambda>c.
          Some \<lparr> status_status = s, status_color = c \<rparr>))
      | _ \<Rightarrow> None)"

definition parse_assignee :: "json option \<Rightarrow> Assignee option" where
  "parse_assignee v =
     (case v of
        Some (JObject kvs) \<Rightarrow>
          Option.bind (parse_number (map_of kvs ''id'')) (\<lambda>i.
          Option.bind (parse_string (map_of kvs ''username'')) (\<lambda>u.
          Option.bind (optional parse_string (map_of kvs ''email'')) (\<lambda>e.
          Some \<lparr> assignee_id = i, username = u, email = e \<rparr>)))
      | _ \<Rightarrow> None)"

definition parse_priority :: "json option \<Rightarrow> Priority option" where
  "parse_priority v =
     (case v of
        Some (JObject kvs) \<Rightarrow>
          Option.bind (parse_string (map_of kvs ''id'')) (\<lambda>i.
          Option.bind (parse_string (map_of kvs ''priority'')) (\<lambda>p.
          Option.bind (parse_string (map_of kvs ''color'')) (\<lambda>c.
          Some \<lparr> priority_id = i, priority_priority = p, priority_color = c \<rparr>)))
      | _ \<Rightarrow> None)"

definition parse_tag :: "json option \<Rightarrow> Tag option" where
  "parse_tag v =
     (case v of
        Some (JObject kvs) \<Rightarrow>
          Option.bind (parse_string (map_of kvs ''name'')) (\<lambda>n.
          Option.bind (optional parse_string (map_of kvs ''tag_fg'')) (\<lambda>fg.
          Option.bind (optional parse_string (map_of kvs ''tag_bg'')) (\<lambda>bg.
          Some \<lparr> tag_name = n, tag_fg = fg, tag_bg = bg \<rparr>)))
      | _ \<Rightarrow> None)"

definition ClickUpTaskSchema_parse :: "json \<Rightarrow> ClickUpTask option" where
  "ClickUpTaskSchema_parse task =
     (case task of
        JObject kvs \<Rightarrow>
          Option.bind (parse_string (map_of kvs ''id'')) (\<lambda>i.
          Option.bind (parse_string (map_of kvs ''name'')) (\<lambda>n.
          Option.bind (nullable_optional parse_string (map_of kvs ''description'')) (\<lambda>d.
          Option.bind (parse_status (map_of kvs ''status'')) (\<lambda>s.
          Option.bind (optional (parse_array parse_assignee) (map_of kvs ''assignees'')) (\<lambda>a.
          Option.bind (nullable_optional parse_priority (map_of kvs ''priority'')) (\<lambda>p.
          Option.bind (optional (parse_array parse_tag) (map_of kvs ''tags'')) (\<lambda>tg.
          Option.bind (nullable_optional parse_string (map_of kvs ''due_date'')) (\<lambda>dd.
          Option.bind (optional (parse_array id) (map_of kvs ''custom_fields'')) (\<lambda>cf.
          Option.bind (optional parse_string (map_of kvs ''url'')) (\<lambda>u.
          Some \<lparr> task_id = i, task_name = n, description = d, status = s, assignees = a,
                 priority = p, tags = tg, due_date = dd, custom_fields = cf, url = u \<rparr>))))))))))
      | _ \<Rightarrow> None)"

subsection \<open>The fallback object built when validation fails\<close>

text \<open>
  The fallback object is given the type of a task by a cast, not by a check: its fields hold
  whatever the raw item held. The types of \<open>id\<close> and \<open>name\<close> differ between the workflow
  (both passed through \<open>String\<close>) and the tool.
\<close>

record ('i, 'n) CoercedTask =
  c_id :: 'i
  c_name :: 'n
  c_description :: json
  c_status_status :: json
  c_assignees :: json
  c_priority :: json
  c_tags :: json
  c_due_date :: json
  c_custom_fields :: json
  c_url :: json

datatype ('i, 'n) fetched = Parsed ClickUpTask | Coerced "('i, 'n) CoercedTask"

text \<open>
  The \<open>catch\<close> branch in \<open>fetchClickUpTasks\<close>; the first property read is \<open>t.id\<close>, and
  the two \<open>String\<close> conversions are made where the object literal has them.
\<close>

definition coerce_task :: "(rat \<Rightarrow> string) \<Rightarrow> json \<Rightarrow> js_error + (string, string) CoercedTask" where
  "coerce_task numText t =
     bind_err (get_prop t ''id'') (\<lambda>i.
     bind_err (String_of numText i) (\<lambda>id_text.
     bind_err (get_prop t ''name'') (\<lambda>n.
     bind_err (String_of numText (Some (or_else n (JString ''Untitled Task'')))) (\<lambda>name_text.
     bind_err (get_prop t ''description'') (\<lambda>d.
     bind_err (get_prop t ''status'') (\<lambda>s.
     bind_err (get_prop t ''assignees'') (\<lambda>a.
     bind_err (get_prop t ''priority'') (\<lambda>p.
     bind_err (get_prop t ''tags'') (\<lambda>tg.
     bind_err (get_prop t ''due_date'') (\<lambda>dd.
     bind_err (get_prop t ''custom_fields'') (\<lambda>cf.
     bind_err (get_prop t ''url'') (\<lambda>u.
     Inr \<lparr> c_id = id_text,
           c_name = name_text,
           c_description = or_else d JNull,
           c_status_status = or_else (optional_get s ''status'') (JString ''unknown''),
           c_assignees = or_else a (JArray []),
           c_priority = or_else p JNull,
           c_tags = or_else tg (JArray []),
           c_due_date = or_else dd JNull,
           c_custom_fields = or_else cf (JArray []),
           c_url = or_else u (JString []) \<rparr>))))))))))))"

text \<open>
  The \<open>catch\<close> branch in the tool; the warning reads \<open>task.id\<close> first and puts it into
  a template string.
\<close>

definition tool_coerce_task :: "(rat \<Rightarrow> string) \<Rightarrow> json \<Rightarrow> js_error + (json option, json) CoercedTask" where
  "tool_coerce_task numText t =
     bind_err (get_prop t ''id'') (\<lambda>warned.
     bind_err (String_of numText warned) (\<lambda>warning_text.
     bind_err (get_prop t ''id'') (\<lambda>i.
     bind_err (get_prop t ''name'') (\<lambda>n.
     bind_err (get_prop t ''description'') (\<lambda>d.
     bind_err (get_prop t ''status'') (\<lambda>s.
     bind_err (get_prop t ''assignees'') (\<lambda>a.
     bind_err (get_prop t ''priority'') (\<lambda>p.
     bind_err (get_prop t ''tags'') (\<lambda>tg.
     bind_err (get_prop t ''due_date'') (\<lambda>dd.
     bind_err (get_prop t ''custom_fields'') (\<lambda>cf.
     bind_err (get_prop t ''url'') (\<lambda>u.
     Inr \<lparr> c_id = i,
           c_name = or_else n (JString ''Untitled Task''),
           c_description = or_else d JNull,
           c_status_status = or_else (optional_get s ''status'') (JString ''unknown''),
           c_assignees = or_else a (JArray []),
           c_priority = or_else p JNull,
           c_tags = or_else tg (JArray []),
           c_due_date = or_else dd JNull,
           c_custom_fields = or_else cf (JArray []),
           c_url = or_else u (JString []) \<rparr>))))))))))))"

text \<open>The callback of \<open>data.tasks.map\<close>: strict validation, and the fallback when it throws.\<close>

definition task_of :: "(rat \<Rightarrow> string) \<Rightarrow> json \<Rightarrow> js_error + (string, string) fetched" where
  "task_of numText task =
     (case ClickUpTaskSchema_parse task of
        Some t \<Rightarrow> Inr (Parsed t)
      | None \<Rightarrow> map_sum id Coerced (coerce_task numText task))"

definition tool_task_of :: "(rat \<Rightarrow> string) \<Rightarrow> json \<Rightarrow> js_error + (json option, json) fetched" where
  "tool_task_of numText task =
     (case ClickUpTaskSchema_parse task of
        Some t \<Rightarrow> Inr (Parsed t)
      | None \<Rightarrow> map_sum id Coerced (tool_coerce_task numText task))"

text \<open>\<open>xs.map(f)\<close> with a callback that may throw: the first exception ends the map.\<close>

fun map_throwing :: "('a \<Rightarrow> js_error + 'b) \<Rightarrow> 'a list \<Rightarrow> js_error + 'b list" where
  "map_throwing f [] = Inr []"
| "map_throwing f (x # xs) =
     bind_err (f x) (\<lambda>y. bind_err (map_throwing f xs) (\<lambda>ys. Inr (y # ys)))"

text \<open>\<open>data.tasks.map(f)\<close> on the parsed body.\<close>

definition map_tasks :: "(json \<Rightarrow> js_error + 'b) \<Rightarrow> json \<Rightarrow> js_error + 'b list" where
  "map_tasks f data =
     bind_err (get_prop data ''tasks'') (\<lambda>ts.
       case ts of
         Some (JArray xs) \<Rightarrow> map_throwing f xs
       | None \<Rightarrow> Inl (TypeError ''Cannot read properties of undefined (reading 'map')'')
       | Some JNull \<Rightarrow> Inl (TypeError ''Cannot read properties of null (reading 'map')'')
       | Some other \<Rightarrow> Inl (TypeError ''data.tasks.map is not a function''))"

subsection \<open>The request and its timeout\<close>

text \<open>
  The task source is outside the program: for a request it never answers, or the request
  settles after some milliseconds, with a rejection (network failure) or a response. The
  client arms a timer that aborts the request; an aborted request rejects with
  \<open>AbortError\<close>.
\<close>

datatype reply = NoReply | SettlesAfter nat "js_error + http_response"

definition fetch_with_abort :: "nat \<Rightarrow> reply \<Rightarrow> js_error + http_response" where
  "fetch_with_abort timeout_ms r =
     (case r of
        NoReply \<Rightarrow> Inl AbortError
      | SettlesAfter ms outcome \<Rightarrow> if ms < timeout_ms then outcome else Inl AbortError)"

text \<open>
  The surroundings of the client: \<open>getEnvVar\<close> (imported from src/utils/env.js; here a
  parameter giving the value of a variable, or the error thrown for it),
  \<open>URLSearchParams.toString\<close>, the task source, and the text of a number.
\<close>

record SourceEnv =
  getEnvVar :: "string \<Rightarrow> js_error + string"
  encodeParams :: "(string \<times> string) list \<Rightarrow> string"
  source :: "http_request \<Rightarrow> reply"
  numText :: "rat \<Rightarrow> string"

definition CLICKUP_API_BASE :: string where
  "CLICKUP_API_BASE = ''https://api.clickup.com/api/v2''"

definition bool_toString :: "bool \<Rightarrow> string" where
  "bool_toString b = (if b then ''true'' else ''false'')"

definition clickup_request :: "string \<Rightarrow> string \<Rightarrow> http_request" where
  "clickup_request target apiToken =
     \<lparr> req_method = ''GET'', req_url = target,
       req_headers = [(''Authorization'', apiToken), (''Content-Type'', ''application/json'')],
       req_body = [] \<rparr>"

text \<open>\<open>listId || getEnvVar('CLICKUP_LIST_ID')\<close>\<close>

definition resolve_listId :: "SourceEnv \<Rightarrow> string option \<Rightarrow> js_error + string" where
  "resolve_listId env lid =
     (case lid of
        None \<Rightarrow> getEnvVar env ''CLICKUP_LIST_ID''
      | Some l \<Rightarrow> if l = [] then getEnvVar env ''CLICKUP_LIST_ID'' else Inr l)"

definition fetchClickUpTasks ::
  "SourceEnv \<Rightarrow> string option \<Rightarrow> bool \<Rightarrow> js_error + ((string, string) fetched list \<times> string)" where
  "fetchClickUpTasks env lid includeSubtasks =
     bind_err (resolve_listId env lid) (\<lambda>resolvedListId.
     bind_err (getEnvVar env ''CLICKUP_API_TOKEN'') (\<lambda>apiToken.
     let params = encodeParams env [(''include_subtasks'', bool_toString includeSubtasks)];
         target = CLICKUP_API_BASE @ ''/list/'' @ resolvedListId @ ''/task?'' @ params
     in bind_err (fetch_with_abort 30000 (source env (clickup_request target apiToken))) (\<lambda>response.
          if \<not> response_ok response
          then Inl (Error (''ClickUp API error: '' @ show_nat (resp_status response) @ '' '' @
                             resp_statusText response))
          else bind_err (resp_json response) (\<lambda>data.
               bind_err (map_tasks (task_of (numText env)) data) (\<lambda>tasks.
               Inr (tasks, resolvedListId))))))"

text \<open>\<open>error.name\<close>\<close>

fun error_name :: "js_error \<Rightarrow> string" where
  "error_name (Error m) = ''Error''"
| "error_name (TypeError m) = ''TypeError''"
| "error_name (SyntaxError m) = ''SyntaxError''"
| "error_name AbortError = ''AbortError''"
| "error_name (Thrown v) = []"

definition clickupSyncTool ::
  "SourceEnv \<Rightarrow> string option \<Rightarrow> bool \<Rightarrow> string list option
     \<Rightarrow> js_error + ((json option, json) fetched list \<times> string)" where
  "clickupSyncTool env inputListId includeSubtasks statuses =
     bind_err (resolve_listId env inputListId) (\<lambda>lid.
     bind_err (getEnvVar env ''CLICKUP_API_TOKEN'') (\<lambda>apiToken.
     let params = encodeParams env
                    ([(''include_subtasks'', bool_toString includeSubtasks)] @
                     (case statuses of None \<Rightarrow> [] | Some ss \<Rightarrow> map (\<lambda>s. (''statuses[]'', s)) ss));
         target = CLICKUP_API_BASE @ ''/list/'' @ lid @ ''/task?'' @ params
     in try_catch
          (bind_err (fetch_with_abort 30000 (source env (clickup_request target apiToken))) (\<lambda>response.
             if \<not> response_ok response
             then (if resp_status response = 429
                   then Inl (Error ''ClickUp API rate limit exceeded. Please try again later.'')
                   else if resp_status response = 401
                   then Inl (Error ''Invalid ClickUp API token. Please check your CLICKUP_API_TOKEN environment variable.'')
                   else Inl (Error (''ClickUp API error: '' @ show_nat (resp_status response) @ '' '' @
                                      resp_statusText response)))
             else bind_err (resp_json response) (\<lambda>data.
                  bind_err (map_tasks (tool_task_of (numText env)) data) (\<lambda>tasks.
                  Inr (tasks, lid)))))
          (\<lambda>error.
             if instanceof_Error error
             then (if error_name error = ''AbortError''
                   then Inl (Error ''ClickUp API request timed out after 30 seconds'')
                   else Inl error)
             else Inl (Error ''Unknown error occurred while fetching ClickUp tasks''))))"

section \<open>Document formatter (sprintFormatterTool)\<close>

text \<open>
  What the formatter takes from its surroundings: the text of a number, the text of the
  mean of a list of numbers to one decimal place, and \<open>new Date(s).toISOString()\<close>, which
  throws a \<open>RangeError\<close> when \<open>s\<close> is not a date.
\<close>

record FormatEnv =
  fmt_number :: "rat \<Rightarrow> string"
  fmt_mean :: "rat list \<Rightarrow> string"
  fmt_iso :: "string \<Rightarrow> js_error + string"

definition formatQualityScore :: "FormatEnv \<Rightarrow> rat \<Rightarrow> string list \<Rightarrow> string" where
  "formatQualityScore env score gaps =
     (if length gaps = 0 then fmt_number env score @ ''/5''
      else fmt_number env score @ ''/5 (missing: '' @ join '', '' gaps @ '')'')"

text \<open>
  \<open>s.trim()\<close> removes white space and line terminators from both ends. These are their
  UTF-8 encodings: tab, line feed, vertical tab, form feed, carriage return, space, U+00A0,
  U+1680, U+2000 to U+200A, U+2028, U+2029, U+202F, U+205F, U+3000 and U+FEFF.
\<close>

definition white_space :: "string list" where
  "white_space =
     [[CHR 0x09], [CHR 0x0A], [CHR 0x0B], [CHR 0x0C], [CHR 0x0D], [CHR 0x20],
      [CHR 0xC2, CHR 0xA0],
      [CHR 0xE1, CHR 0x9A, CHR 0x80],
      [CHR 0xE2, CHR 0x80, CHR 0x80], [CHR 0xE2, CHR 0x80, CHR 0x81],
      [CHR 0xE2, CHR 0x80, CHR 0x82], [CHR 0xE2, CHR 0x80, CHR 0x83],
      [CHR 0xE2, CHR 0x80, CHR 0x84], [CHR 0xE2, CHR 0x80, CHR 0x85],
      [CHR 0xE2, CHR 0x80, CHR 0x86], [CHR 0xE2, CHR 0x80, CHR 0x87],
      [CHR 0xE2, CHR 0x80, CHR 0x88], [CHR 0xE2, CHR 0x80, CHR 0x89],
      [CHR 0xE2, CHR 0x80, CHR 0x8A],
      [CHR 0xE2, CHR 0x80, CHR 0xA8], [CHR 0xE2, CHR 0x80, CHR 0xA9],
      [CHR 0xE2, CHR 0x80, CHR 0xAF],
      [CHR 0xE2, CHR 0x81, CHR 0x9F],
      [CHR 0xE3, CHR 0x80, CHR 0x80],
      [CHR 0xEF, CHR 0xBB, CHR 0xBF]]"

text \<open>The first of the sequences \<open>ws\<close> that \<open>s\<close> starts with.\<close>

definition leading :: "string list \<Rightarrow> string \<Rightarrow> string option" where
  "leading ws s = find (\<lambda>w. w \<noteq> [] \<and> take (length w) s = w) ws"

function strip_start :: "string list \<Rightarrow> string \<Rightarrow> string" where
  "strip_start ws s =
     (case leading ws s of
        None \<Rightarrow> s
      | Some w \<Rightarrow> strip_start ws (drop (length w) s))"
  by pat_completeness auto
termination
proof (relation "measure (\<lambda>(ws, s). length s)")
  show "wf (measure (\<lambda>(ws, s). length s))"
    by simp
next
  fix ws :: "string list" and s w :: string
  assume "leading ws s = Some w"
  then have "w \<noteq> []" and "take (length w) s = w"
    by (auto simp: leading_def find_Some_iff)
  then have "s \<noteq> []"
    by auto
  with \<open>w \<noteq> []\<close> show "((ws, drop (length w) s), (ws, s)) \<in> measure (\<lambda>(ws, s). length s)"
    by simp
qed

declare strip_start.simps [simp del]

definition trim :: "string \<Rightarrow> string" where
  "trim s = rev (strip_start (map rev white_space) (rev (strip_start white_space s)))"

definition formatTicketMarkdown :: "FormatEnv \<Rightarrow> AnalyzedTicket \<Rightarrow> nat \<Rightarrow> js_error + string" where
  "formatTicketMarkdown env item index =
     (let t = ticket item; a = analysis item
      in bind_err
           (case due_date t of
              None \<Rightarrow> Inr []
            | Some d \<Rightarrow>
                if d = [] then Inr []
                else bind_err (fmt_iso env d) (\<lambda>iso. Inr [''- **Due Date**: '' @ date_part iso]))
           (\<lambda>due_lines.
              Inr (join nl
                ([''### '' @ show_nat (index + 1) @ ''. ['' @ toUpperCase (tag_string (complexityTag a)) @
                    ''] '' @ task_name t,
                  ''- **ClickUp ID**: '' @ task_id t,
                  ''- **Status**: '' @ status_status (status t),
                  ''- **Quality**: '' @ formatQualityScore env (qualityScore a) (qualityGaps a),
                  ''- **Complexity**: '' @ tag_string (complexityTag a)] @
                 (case priority t of
                    None \<Rightarrow> []
                  | Some p \<Rightarrow> [''- **Priority**: '' @ priority_priority p]) @
                 (case assignees t of
                    None \<Rightarrow> []
                  | Some us \<Rightarrow>
                      if length us > 0 then [''- **Assignees**: '' @ join '', '' (map username us)]
                      else []) @
                 (case tags t of
                    None \<Rightarrow> []
                  | Some tgs \<Rightarrow>
                      if length tgs > 0 then [''- **Tags**: '' @ join '', '' (map tag_name tgs)]
                      else []) @
                 due_lines @
                 (if length (affectedFiles a) > 0
                  then ''- **Affected files**:'' # map (\<lambda>file. ''  - `'' @ file @ ''`'') (affectedFiles a)
                  else [''- **Affected files**: (none identified)'']) @
                 [''- **Suggested approach**: '' @ suggestedApproach a,
                  ''- **Agent**: '' @ (if complexityTag a = Fix then ''/fix'' else ''/agent'')] @
                 (case description t of
                    None \<Rightarrow> []
                  | Some d \<Rightarrow>
                      if length (trim d) > 0 then [[], ''**Description:**'', trim d] else []) @
                 (case url t of
                    None \<Rightarrow> []
                  | Some u \<Rightarrow> if u = [] then [] else [[], ''[View in ClickUp]('' @ u @ '')''])))))"

text \<open>The lines of the report: the tickets are rendered in the order \<open>sortTickets\<close> gives.\<close>

definition sprintFormatter_lines ::
  "FormatEnv \<Rightarrow> AnalyzedTicket list \<Rightarrow> SprintMetadata \<Rightarrow> js_error + string list" where
  "sprintFormatter_lines env tickets metadata =
     (let sortedTickets = sortTickets tickets
      in bind_err (fmt_iso env (syncTimestamp metadata)) (\<lambda>syncTime.
         bind_err (map_throwing (\<lambda>(index, item). formatTicketMarkdown env item index)
                     (enumerate 0 sortedTickets)) (\<lambda>blocks.
         Inr ([''# Sprint: '' @ date_part syncTime,
               [],
               ''Synced from ClickUp List '' @ [CHR 0x22] @
                 or_default (listName metadata) (''List '' @ meta_listId metadata) @ [CHR 0x22] @
                 '' at '' @ syncTime,
               ''Total tickets: '' @ show_nat (ticketCount metadata),
               [],
               ''**Summary:**'',
               ''- Fixes: '' @
                 show_nat (length (filter (\<lambda>t. complexityTag (analysis t) = Fix) tickets)),
               ''- Features: '' @
                 show_nat (length (filter (\<lambda>t. complexityTag (analysis t) = Feature) tickets)),
               ''- Average Quality Score: '' @
                 (if length tickets > 0 then fmt_mean env (map (\<lambda>t. qualityScore (analysis t)) tickets)
                  else ''0'') @ ''/5'',
               [],
               ''## Tickets (ordered by priority)'',
               []] @
              (if length sortedTickets = 0 then [''No tickets found.'']
               else concat (map (\<lambda>block. [block, [], ''---'', []]) blocks))))))"

definition sprintFormatterTool ::
  "FormatEnv \<Rightarrow> AnalyzedTicket list \<Rightarrow> SprintMetadata \<Rightarrow> js_error + string" where
  "sprintFormatterTool env tickets metadata =
     map_sum id (join nl) (sprintFormatter_lines env tickets metadata)"

section \<open>Observations and example data\<close>

text \<open>The number of requests sent and the delays waited (in milliseconds) in a run.\<close>

fun attempts :: "event list \<Rightarrow> nat" where
  "attempts [] = 0"
| "attempts (Request r # es) = Suc (attempts es)"
| "attempts (Delay d # es) = attempts es"

fun delays :: "event list \<Rightarrow> nat list" where
  "delays [] = []"
| "delays (Request r # es) = delays es"
| "delays (Delay d # es) = d # delays es"

text \<open>One failed attempt followed by its backoff delay.\<close>

definition backoff :: "http_request \<Rightarrow> nat \<Rightarrow> event list" where
  "backoff req n = [Request req, Delay (2 ^ n * 1000)]"

text \<open>The error kept in \<open>lastError\<close> for a caught value.\<close>

definition caught :: "js_error \<Rightarrow> js_error" where
  "caught e = (if instanceof_Error e then e else Error ''Unknown error'')"

text \<open>A value that is absent, null, a boolean, a number or a string.\<close>

definition scalar :: "json option \<Rightarrow> bool" where
  "scalar v = (case v of Some (JArray xs) \<Rightarrow> False | Some (JObject kvs) \<Rightarrow> False | _ \<Rightarrow> True)"

text \<open>The three keys of the documented sort order, read off a ticket.\<close>

definition same_keys :: "AnalyzedTicket \<Rightarrow> AnalyzedTicket \<Rightarrow> bool" where
  "same_keys a b =
     (getPriorityOrder (priority_of a) = getPriorityOrder (priority_of b)
      \<and> qualityScore (analysis a) = qualityScore (analysis b)
      \<and> complexityTag (analysis a) = complexityTag (analysis b))"

text \<open>A priority label whose rank is a number (any label but the two inherited names).\<close>

definition ranked :: "AnalyzedTicket \<Rightarrow> bool" where
  "ranked a = (case getPriorityOrder (priority_of a) of Number n \<Rightarrow> True | Inherited k \<Rightarrow> False)"

definition rank :: "AnalyzedTicket \<Rightarrow> rat" where
  "rank a = (case getPriorityOrder (priority_of a) of Number n \<Rightarrow> n | Inherited k \<Rightarrow> 0)"

text \<open>\<open>precedes a b\<close>: the documented order allows \<open>a\<close> before \<open>b\<close>.\<close>

definition precedes :: "AnalyzedTicket \<Rightarrow> AnalyzedTicket \<Rightarrow> bool" where
  "precedes a b =
     (rank a < rank b
      \<or> (rank a = rank b \<and> qualityScore (analysis a) > qualityScore (analysis b))
      \<or> (rank a = rank b \<and> qualityScore (analysis a) = qualityScore (analysis b)
          \<and> (complexityTag (analysis a) = Fix \<or> complexityTag (analysis b) = Feature)))"

definition mk_task :: "string \<Rightarrow> string \<Rightarrow> string option \<Rightarrow> ClickUpTask" where
  "mk_task i n p =
     \<lparr> task_id = i, task_name = n, description = None,
       status = \<lparr> status_status = ''open'', status_color = None \<rparr>,
       assignees = None,
       priority = map_option (\<lambda>l. \<lparr> priority_id = ''1'', priority_priority = l,
                                        priority_color = ''#000000'' \<rparr>) p,
       tags = None, due_date = None, custom_fields = None, url = None \<rparr>"

definition mk_analysis :: "rat \<Rightarrow> ComplexityTag \<Rightarrow> TicketAnalysis" where
  "mk_analysis q c =
     \<lparr> qualityScore = q, qualityGaps = [], affectedFiles = [], complexityTag = c,
       suggestedApproach = ''Follow the existing pattern'' \<rparr>"

definition no_codebase :: CodebaseMap where
  "no_codebase = \<lparr> routes = [], components = [], actions = [], scannedAt = None \<rparr>"

definition low_task :: ClickUpTask where
  "low_task = mk_task ''t1'' ''Add dark mode'' (Some ''Low'')"

definition urgent_task :: ClickUpTask where
  "urgent_task = mk_task ''t2'' ''Fix login crash'' (Some ''Urgent'')"

text \<open>A model that classifies the first item as a feature and the second as a fix.\<close>

definition two_item_model :: model where
  "two_item_model n sys prompt = Inr (if n = 0 then mk_analysis 4 Feature else mk_analysis 4 Fix)"

definition failing_model :: model where
  "failing_model n sys prompt = Inl (Error ''model unavailable'')"

definition ok_response :: http_response where
  "ok_response = \<lparr> resp_status = 200, resp_statusText = ''OK'', resp_json = Inr JNull \<rparr>"

definition unavailable :: http_response where
  "unavailable = \<lparr> resp_status = 503, resp_statusText = ''Service Unavailable'',
                    resp_json = Inr JNull \<rparr>"

definition accepts :: destination where
  "accepts attempt req = Inr ok_response"

definition fails_twice :: destination where
  "fails_twice attempt req =
     (if attempt = 0 then Inl (TypeError ''fetch failed'')
      else if attempt = 1 then Inr unavailable
      else Inr ok_response)"

definition always_unavailable :: destination where
  "always_unavailable attempt req = Inr unavailable"

text \<open>A task source that answers every request with the given response after 120 ms.\<close>

definition answering :: "http_response \<Rightarrow> SourceEnv" where
  "answering response =
     \<lparr> getEnvVar = (\<lambda>name. Inr ''configured''),
       encodeParams = (\<lambda>ps. join ''&'' (map (\<lambda>(k, v). k @ ''='' @ v) ps)),
       source = (\<lambda>req. SettlesAfter 120 (Inr response)),
       numText = (\<lambda>n. show_nat (nat \<lfloor>n\<rfloor>)) \<rparr>"

definition status_response :: "nat \<Rightarrow> string \<Rightarrow> http_response" where
  "status_response code text = \<lparr> resp_status = code, resp_statusText = text, resp_json = Inr JNull \<rparr>"

definition body_response :: "json \<Rightarrow> http_response" where
  "body_response data = \<lparr> resp_status = 200, resp_statusText = ''OK'', resp_json = Inr data \<rparr>"


text \<open>Two fetched items, the Low one first, and what the analysis step makes of them.\<close>

definition fetched_two :: AnalyzeInput where
  "fetched_two =
     \<lparr> in_tasks = [low_task, urgent_task], in_listId = ''901'', in_codebaseMap = no_codebase,
       in_webhookUrl = ''http://localhost:3001'', in_webhookSecret = None \<rparr>"

definition analyzed_two :: DeliverInput where
  "analyzed_two =
     \<lparr> analyzedTickets = [\<lparr> ticket = low_task, analysis = mk_analysis 4 Feature \<rparr>,
                          \<lparr> ticket = urgent_task, analysis = mk_analysis 4 Fix \<rparr>],
       listId = ''901'', webhookUrl = ''http://localhost:3001'', webhookSecret = None \<rparr>"

text \<open>Surroundings for the formatter examples: timestamps already in ISO form.\<close>

definition example_format :: FormatEnv where
  "example_format =
     \<lparr> fmt_number = (\<lambda>n. show_nat (nat \<lfloor>n\<rfloor>)),
       fmt_mean = (\<lambda>xs. ''3.0''),
       fmt_iso = (\<lambda>s. Inr s) \<rparr>"

definition example_metadata :: SprintMetadata where
  "example_metadata =
     \<lparr> syncTimestamp = ''2026-02-13T14:30:00.000Z'', ticketCount = 2, meta_listId = ''901'',
       listName = None \<rparr>"

section \<open>The item analyzer never raises\<close>

lemma analyzeTicket_Inr: "\<exists>a. analyzeTicket g t m n = (Inr a, Suc n)"
  by (cases "g n ANALYSIS_SYSTEM_PROMPT (userPrompt t m)")
     (simp_all add: analyzeTicket_def try_catch_def)

lemma analyzeTicketTool_Inr: "\<exists>a. analyzeTicketTool g t m n = (Inr a, Suc n)"
  by (cases "g n SYSTEM_PROMPT (toolUserPrompt t m)")
     (simp_all add: analyzeTicketTool_def try_catch_def)

lemma analyzeTicket_passes_result:
  "g n ANALYSIS_SYSTEM_PROMPT (userPrompt t m) = Inr a \<Longrightarrow> fst (analyzeTicket g t m n) = Inr a"
  by (simp add: analyzeTicket_def try_catch_def)

text \<open>
  C3. Both analyzers (the one the workflow runs and the tool) settle with an analysis for
  every ticket, project structure and model behaviour; whenever the model call rejects, for
  whatever reason, the result is the fixed fallback: score 3, one quality gap, no affected
  files, complexity feature, and an approach that asks for a manual review.
\<close>

theorem analyzeTicket_falls_back:
  "(\<exists>a. fst (analyzeTicket g t m n) = Inr a)
   \<and> (\<forall>e. g n ANALYSIS_SYSTEM_PROMPT (userPrompt t m) = Inl e \<longrightarrow>
          fst (analyzeTicket g t m n) =
            Inr \<lparr> qualityScore = 3,
                  qualityGaps = [''Analysis failed - manual review needed''],
                  affectedFiles = [],
                  complexityTag = Feature,
                  suggestedApproach = ''Review ticket manually'' \<rparr>)
   \<and> (\<exists>a. fst (analyzeTicketTool g t m n) = Inr a)
   \<and> (\<forall>e. g n SYSTEM_PROMPT (toolUserPrompt t m) = Inl e \<longrightarrow>
          fst (analyzeTicketTool g t m n) =
            Inr \<lparr> qualityScore = 3,
                  qualityGaps = [''Unable to perform detailed analysis due to technical error''],
                  affectedFiles = [],
                  complexityTag = Feature,
                  suggestedApproach =
                    ''Review ticket requirements and identify relevant files manually'' \<rparr>)"
proof (intro conjI allI impI)
  show "\<exists>a. fst (analyzeTicket g t m n) = Inr a"
    using analyzeTicket_Inr [of g t m n] by auto
  show "\<exists>a. fst (analyzeTicketTool g t m n) = Inr a"
    using analyzeTicketTool_Inr [of g t m n] by auto
next
  fix e
  assume "g n ANALYSIS_SYSTEM_PROMPT (userPrompt t m) = Inl e"
  then show "fst (analyzeTicket g t m n) =
            Inr \<lparr> qualityScore = 3,
                  qualityGaps = [''Analysis failed - manual review needed''],
                  affectedFiles = [],
                  complexityTag = Feature,
                  suggestedApproach = ''Review ticket manually'' \<rparr>"
    by (simp add: analyzeTicket_def try_catch_def fallbackAnalysis_def)
next
  fix e
  assume "g n SYSTEM_PROMPT (toolUserPrompt t m) = Inl e"
  then show "fst (analyzeTicketTool g t m n) =
            Inr \<lparr> qualityScore = 3,
                  qualityGaps = [''Unable to perform detailed analysis due to technical error''],
                  affectedFiles = [],
                  complexityTag = Feature,
                  suggestedApproach =
                    ''Review ticket requirements and identify relevant files manually'' \<rparr>"
    by (simp add: analyzeTicketTool_def try_catch_def toolFallbackAnalysis_def)
qed

theorem analyzeTicket_falls_back_witness:
  "fst (analyzeTicket failing_model urgent_task no_codebase 0) =
     Inr \<lparr> qualityScore = 3,
           qualityGaps = [''Analysis failed - manual review needed''],
           affectedFiles = [],
           complexityTag = Feature,
           suggestedApproach = ''Review ticket manually'' \<rparr>
   \<and> fst (analyzeTicketTool failing_model urgent_task no_codebase 0) =
     Inr \<lparr> qualityScore = 3,
           qualityGaps = [''Unable to perform detailed analysis due to technical error''],
           affectedFiles = [],
           complexityTag = Feature,
           suggestedApproach =
             ''Review ticket requirements and identify relevant files manually'' \<rparr>"
  using analyzeTicket_falls_back [of failing_model urgent_task no_codebase 0]
  by (simp add: failing_model_def)

section \<open>The batch orchestrator keeps every item, in order\<close>

lemma analyze_batch_all:
  "\<exists>as. analyze_batch g m ts n = (map Inr as, n + length ts) \<and> map ticket as = ts"
proof (induction ts arbitrary: n)
  case Nil
  show ?case by simp
next
  case (Cons t ts)
  obtain a where a: "analyzeTicket g t m n = (Inr a, Suc n)"
    using analyzeTicket_Inr [of g t m n] by auto
  obtain as where as: "analyze_batch g m ts (Suc n) = (map Inr as, Suc n + length ts)"
    and tk: "map ticket as = ts"
    using Cons.IH [of "Suc n"] by auto
  have "analyze_batch g m (t # ts) n =
          (map Inr (\<lparr> ticket = t, analysis = a \<rparr> # as), n + length (t # ts))"
    by (simp add: a as)
  moreover have "map ticket (\<lparr> ticket = t, analysis = a \<rparr> # as) = t # ts"
    by (simp add: tk)
  ultimately show ?case by (intro exI conjI)
qed

lemma Promise_all_Inr: "Promise_all (map Inr vs) = Inr vs"
  by (induction vs) simp_all

lemma analyze_loop_all:
  "\<exists>res. analyze_loop g m tasks i results n = (Inr res, n + (length tasks - i))
         \<and> map ticket res = map ticket results @ drop i tasks"
proof (induction g m tasks i results n rule: analyze_loop.induct)
  case (1 g m tasks i results n)
  show ?case
  proof (cases "i < length tasks")
    case False
    then show ?thesis by (subst analyze_loop.simps) simp
  next
    case True
    let ?batch = "slice tasks i (i + batchSize)"
    obtain as where as: "analyze_batch g m ?batch n = (map Inr as, n + length ?batch)"
      and tk: "map ticket as = ?batch"
      using analyze_batch_all [of g m ?batch n] by auto
    have pa: "Promise_all (map Inr as) = Inr as"
      by (rule Promise_all_Inr)
    obtain res where res: "analyze_loop g m tasks (i + batchSize) (results @ as) (n + length ?batch)
               = (Inr res, n + length ?batch + (length tasks - (i + batchSize)))"
      and rk: "map ticket res = map ticket (results @ as) @ drop (i + batchSize) tasks"
      using "1.IH" [OF True as [symmetric] pa] by auto
    have step: "analyze_loop g m tasks i results n =
                  analyze_loop g m tasks (i + batchSize) (results @ as) (n + length ?batch)"
      using True by (subst analyze_loop.simps) (simp add: as pa)
    have len: "length ?batch + (length tasks - (i + batchSize)) = length tasks - i"
      using True by (simp add: slice_def)
    have "?batch @ drop (i + batchSize) tasks = drop i tasks"
      by (simp add: slice_def add.commute [of i] flip: drop_drop)
    then have "map ticket res = map ticket results @ drop i tasks"
      by (simp add: rk tk)
    moreover have "analyze_loop g m tasks i results n = (Inr res, n + (length tasks - i))"
      using step res len by simp
    ultimately show ?thesis by (intro exI conjI)
  qed
qed

text \<open>
  C2. For every list of tasks, every model and every call count \<open>n\<close> so far, the step
  settles with a result whose analyzed tickets are as many as the tasks and carry the tasks
  in their input order (one model call per task is made); on the empty list the result is
  the empty list and the call count is unchanged, so no analyzer call is made.
\<close>

theorem analyzeTicketsStep_one_per_item:
  "(\<exists>out. analyzeTicketsStep g inp n = (Inr out, n + length (in_tasks inp))
        \<and> length (analyzedTickets out) = length (in_tasks inp)
        \<and> map ticket (analyzedTickets out) = in_tasks inp)
   \<and> analyzeTicketsStep g (inp\<lparr>in_tasks := []\<rparr>) n =
        (Inr \<lparr> analyzedTickets = [], listId = in_listId inp, webhookUrl = in_webhookUrl inp,
               webhookSecret = in_webhookSecret inp \<rparr>, n)"
proof
  show "\<exists>out. analyzeTicketsStep g inp n = (Inr out, n + length (in_tasks inp))
        \<and> length (analyzedTickets out) = length (in_tasks inp)
        \<and> map ticket (analyzedTickets out) = in_tasks inp"
  proof (cases "in_tasks inp = []")
    case True
    then show ?thesis by (simp add: analyzeTicketsStep_def)
  next
    case False
    obtain res where res: "analyze_loop g (in_codebaseMap inp) (in_tasks inp) 0 [] n
                             = (Inr res, n + (length (in_tasks inp) - 0))"
      and rk: "map ticket res = map ticket [] @ drop 0 (in_tasks inp)"
      using analyze_loop_all [of g "in_codebaseMap inp" "in_tasks inp" 0 "[]" n] by auto
    have "length res = length (in_tasks inp)"
      using rk by (metis append_Nil drop0 length_map list.simps(8))
    then show ?thesis
      using False res rk by (simp add: analyzeTicketsStep_def)
  qed
  show "analyzeTicketsStep g (inp\<lparr>in_tasks := []\<rparr>) n =
        (Inr \<lparr> analyzedTickets = [], listId = in_listId inp, webhookUrl = in_webhookUrl inp,
               webhookSecret = in_webhookSecret inp \<rparr>, n)"
    by (simp add: analyzeTicketsStep_def)
qed

section \<open>The delivery client retries with exponential backoff\<close>

lemma deliver_loop_success:
  assumes "a \<le> k" and "int k < retries"
    and "\<forall>j. a \<le> j \<and> j < k \<longrightarrow> (\<exists>e. attempt_outcome dst j (webhook_request h u (s p) sec) = Inl e)"
    and "attempt_outcome dst k (webhook_request h u (s p) sec) = Inr ()"
  shows "deliver_loop h s dst u p sec retries a le tr =
           (Inr (), tr @ concat (map (backoff (webhook_request h u (s p) sec)) [a..<k])
                       @ [Request (webhook_request h u (s p) sec)])"
  using assms
proof (induction "k - a" arbitrary: a le tr)
  case 0
  then have "a = k" by simp
  then show ?case
    using "0.prems" by (subst deliver_loop.simps) (simp add: Let_def)
next
  case (Suc d)
  then have lt: "a < k" by simp
  then obtain e where e: "attempt_outcome dst a (webhook_request h u (s p) sec) = Inl e"
    using Suc.prems(3) by auto
  have ia: "int a < retries" "int a < retries - 1"
    using lt Suc.prems(2) by simp_all
  have d: "d = k - Suc a" using Suc.hyps(2) by simp
  have rest: "deliver_loop h s dst u p sec retries (Suc a) le' tr' =
           (Inr (), tr' @ concat (map (backoff (webhook_request h u (s p) sec)) [Suc a..<k])
                       @ [Request (webhook_request h u (s p) sec)])" for le' tr'
    using Suc.hyps(1) [OF d, of le' tr'] lt Suc.prems by simp
  have up: "[a..<k] = a # [Suc a..<k]"
    using lt by (simp add: upt_conv_Cons)
  show ?case
    using ia e by (subst deliver_loop.simps) (simp add: Let_def rest up backoff_def)
qed

lemma deliver_loop_exhausted:
  assumes "int a < retries"
    and "\<forall>j. a \<le> j \<and> int j < retries \<longrightarrow>
           attempt_outcome dst j (webhook_request h u (s p) sec) = Inl (err j)"
  shows "deliver_loop h s dst u p sec retries a le tr =
           (Inl (caught (err (nat retries - 1))),
            tr @ concat (map (backoff (webhook_request h u (s p) sec)) [a..<nat retries - 1])
               @ [Request (webhook_request h u (s p) sec)])"
  using assms
proof (induction "nat retries - Suc a" arbitrary: a le tr)
  case 0
  then have a: "a = nat retries - 1" "\<not> int a < retries - 1" "\<not> int (Suc a) < retries"
    by auto
  have e: "attempt_outcome dst a (webhook_request h u (s p) sec) = Inl (err a)"
    using "0.prems" by simp
  have stop: "deliver_loop h s dst u p sec retries (Suc a) le' tr' =
                (Inl (case le' of Some e \<Rightarrow> e
                      | None \<Rightarrow> Error ''Webhook delivery failed after retries''), tr')" for le' tr'
    using a(3) by (subst deliver_loop.simps) simp
  have a1: "nat retries - Suc 0 = a" using a(1) by simp
  show ?case
    using "0.prems"(1) e a(2)
    by (subst deliver_loop.simps) (simp add: Let_def stop caught_def a1)
next
  case (Suc d)
  then have lt: "int (Suc a) < retries" "int a < retries - 1" "a < nat retries - 1"
    by auto
  have e: "attempt_outcome dst a (webhook_request h u (s p) sec) = Inl (err a)"
    using Suc.prems by simp
  have d: "d = nat retries - Suc (Suc a)" using Suc.hyps(2) by simp
  have rest: "deliver_loop h s dst u p sec retries (Suc a) le' tr' =
           (Inl (caught (err (nat retries - 1))),
            tr' @ concat (map (backoff (webhook_request h u (s p) sec)) [Suc a..<nat retries - 1])
               @ [Request (webhook_request h u (s p) sec)])" for le' tr'
    using Suc.hyps(1) [OF d lt(1), of le' tr'] Suc.prems(2) by simp
  have up: "[a..<nat retries - Suc 0] = a # [Suc a..<nat retries - Suc 0]"
    using lt(3) by (simp add: upt_conv_Cons)
  show ?case
    using Suc.prems(1) lt(2) e
    by (subst deliver_loop.simps) (simp add: Let_def rest up backoff_def)
qed

lemma attempts_backoff:
  "attempts (concat (map (backoff r) [a..<k]) @ [Request r]) = Suc (k - a)"
proof (induction "k - a" arbitrary: a)
  case 0
  then show ?case by simp
next
  case (Suc d)
  then have "[a..<k] = a # [Suc a..<k]" "d = k - Suc a"
    by (simp_all add: upt_conv_Cons)
  then show ?case
    using Suc.hyps(1) [of "Suc a"] Suc.hyps(2) by (simp add: backoff_def)
qed

lemma delays_backoff:
  "delays (concat (map (backoff r) [a..<k]) @ [Request r]) = map (\<lambda>n. 2 ^ n * 1000) [a..<k]"
proof (induction "k - a" arbitrary: a)
  case 0
  then show ?case by simp
next
  case (Suc d)
  then have "[a..<k] = a # [Suc a..<k]" "d = k - Suc a"
    by (simp_all add: upt_conv_Cons)
  then show ?case
    using Suc.hyps(1) [of "Suc a"] by (simp add: backoff_def)
qed

text \<open>An attempt fails on a network failure and on a response outside 200 to 299.\<close>

lemma attempt_outcome_cases:
  "attempt_outcome dst j r =
     (case dst j r of
        Inl e \<Rightarrow> Inl e
      | Inr response \<Rightarrow>
          if 200 \<le> resp_status response \<and> resp_status response \<le> 299 then Inr ()
          else Inl (Error (''Webhook delivery failed: '' @ show_nat (resp_status response) @ '' '' @
                             resp_statusText response)))"
  by (simp add: attempt_outcome_def response_ok_def split: sum.splits)

text \<open>
  C5. The default number of attempts is 3. If the first 2xx response comes at attempt \<open>k\<close>
  (counted from 0) within the allowed attempts, every earlier attempt having failed by a
  network error or a non-2xx response, the delivery succeeds after exactly \<open>k + 1\<close>
  requests, having waited \<open>2^n\<close> seconds after each failed attempt \<open>n\<close>, and stops. If all
  \<open>retries\<close> attempts fail, exactly \<open>retries\<close> requests are sent, the delays are those after
  the attempts before the last, no delay follows the last attempt, and the error of the last
  attempt is thrown.
\<close>

theorem deliverWebhook_retries_with_backoff:
  "default_retries = 3
   \<and> (\<forall>k. int k < retries
          \<and> (\<forall>j<k. \<exists>e. attempt_outcome dst j (webhook_request h u (s p) sec) = Inl e)
          \<and> attempt_outcome dst k (webhook_request h u (s p) sec) = Inr () \<longrightarrow>
          (case deliverWebhook h s dst u p sec retries of
             (r, tr) \<Rightarrow>
               r = Inr ()
               \<and> tr = concat (map (backoff (webhook_request h u (s p) sec)) [0..<k])
                        @ [Request (webhook_request h u (s p) sec)]
               \<and> attempts tr = k + 1
               \<and> delays tr = map (\<lambda>n. 2 ^ n * 1000) [0..<k]))
   \<and> (0 < retries
        \<and> (\<forall>j. int j < retries \<longrightarrow>
              attempt_outcome dst j (webhook_request h u (s p) sec) = Inl (err j)) \<longrightarrow>
          (case deliverWebhook h s dst u p sec retries of
             (r, tr) \<Rightarrow>
               r = Inl (caught (err (nat retries - 1)))
               \<and> tr = concat (map (backoff (webhook_request h u (s p) sec)) [0..<nat retries - 1])
                        @ [Request (webhook_request h u (s p) sec)]
               \<and> int (attempts tr) = retries
               \<and> delays tr = map (\<lambda>n. 2 ^ n * 1000) [0..<nat retries - 1]))"
proof (intro conjI allI impI)
  show "default_retries = 3" by (simp add: default_retries_def)
next
  fix k
  assume h: "int k < retries
          \<and> (\<forall>j<k. \<exists>e. attempt_outcome dst j (webhook_request h u (s p) sec) = Inl e)
          \<and> attempt_outcome dst k (webhook_request h u (s p) sec) = Inr ()"
  have "deliverWebhook h s dst u p sec retries =
          (Inr (), concat (map (backoff (webhook_request h u (s p) sec)) [0..<k])
                     @ [Request (webhook_request h u (s p) sec)])"
    unfolding deliverWebhook_def
    using deliver_loop_success [of 0 k retries dst h u s p sec None "[]"] h by simp
  then show "case deliverWebhook h s dst u p sec retries of
             (r, tr) \<Rightarrow>
               r = Inr ()
               \<and> tr = concat (map (backoff (webhook_request h u (s p) sec)) [0..<k])
                        @ [Request (webhook_request h u (s p) sec)]
               \<and> attempts tr = k + 1
               \<and> delays tr = map (\<lambda>n. 2 ^ n * 1000) [0..<k]"
    by (simp add: attempts_backoff delays_backoff)
next
  assume h: "0 < retries
        \<and> (\<forall>j. int j < retries \<longrightarrow>
              attempt_outcome dst j (webhook_request h u (s p) sec) = Inl (err j))"
  have "deliverWebhook h s dst u p sec retries =
          (Inl (caught (err (nat retries - 1))),
           concat (map (backoff (webhook_request h u (s p) sec)) [0..<nat retries - 1])
             @ [Request (webhook_request h u (s p) sec)])"
    unfolding deliverWebhook_def
    using deliver_loop_exhausted [of 0 retries dst h u s p sec err None "[]"] h by simp
  moreover have "int (Suc (nat retries - 1)) = retries"
    using h by simp
  ultimately show "case deliverWebhook h s dst u p sec retries of
             (r, tr) \<Rightarrow>
               r = Inl (caught (err (nat retries - 1)))
               \<and> tr = concat (map (backoff (webhook_request h u (s p) sec)) [0..<nat retries - 1])
                        @ [Request (webhook_request h u (s p) sec)]
               \<and> int (attempts tr) = retries
               \<and> delays tr = map (\<lambda>n. 2 ^ n * 1000) [0..<nat retries - 1]"
    by (simp add: attempts_backoff delays_backoff del: of_nat_Suc)
qed

lemma digit_chars:
  "digit_char 0 = CHR ''0''" "digit_char 1 = CHR ''1''" "digit_char 2 = CHR ''2''"
  "digit_char 3 = CHR ''3''" "digit_char 4 = CHR ''4''" "digit_char 5 = CHR ''5''"
  "digit_char 6 = CHR ''6''" "digit_char 7 = CHR ''7''" "digit_char 8 = CHR ''8''"
  "digit_char 9 = CHR ''9''" "digit_char (Suc 0) = CHR ''1''"
  by code_simp+

lemma fails_twice_outcomes:
  "attempt_outcome fails_twice 0 r = Inl (TypeError ''fetch failed'')"
  "attempt_outcome fails_twice (Suc 0) r =
     Inl (Error ''Webhook delivery failed: 503 Service Unavailable'')"
  "attempt_outcome fails_twice 2 r = Inr ()"
  by (simp_all add: attempt_outcome_def fails_twice_def unavailable_def ok_response_def
        response_ok_def show_nat.simps digit_chars)

lemma always_unavailable_outcome:
  "attempt_outcome always_unavailable j r =
     Inl (Error ''Webhook delivery failed: 503 Service Unavailable'')"
  by (simp add: attempt_outcome_def always_unavailable_def unavailable_def
        response_ok_def show_nat.simps digit_chars)

theorem deliverWebhook_retries_with_backoff_witness:
  "deliverWebhook id id fails_twice ''http://localhost:3001'' ''{}'' None 3 =
     (Inr (),
      [Request (webhook_request id ''http://localhost:3001'' ''{}'' None), Delay 1000,
       Request (webhook_request id ''http://localhost:3001'' ''{}'' None), Delay 2000,
       Request (webhook_request id ''http://localhost:3001'' ''{}'' None)])
   \<and> attempts (snd (deliverWebhook id id fails_twice ''http://localhost:3001'' ''{}'' None 3)) = 3
   \<and> sum_list (delays (snd (deliverWebhook id id fails_twice ''http://localhost:3001'' ''{}'' None 3)))
       = 1000 * (2 ^ 0 + 2 ^ 1)
   \<and> deliverWebhook id id always_unavailable ''http://localhost:3001'' ''{}'' None 3 =
     (Inl (Error ''Webhook delivery failed: 503 Service Unavailable''),
      [Request (webhook_request id ''http://localhost:3001'' ''{}'' None), Delay 1000,
       Request (webhook_request id ''http://localhost:3001'' ''{}'' None), Delay 2000,
       Request (webhook_request id ''http://localhost:3001'' ''{}'' None)])"
proof -
  have two: "[0..<2] = [0, Suc 0]" "[0..<nat 3 - 1] = [0, Suc 0]"
    by code_simp+
  have prior: "\<forall>j<2. \<exists>e. attempt_outcome fails_twice j
                 (webhook_request id ''http://localhost:3001'' (id ''{}'') None) = Inl e"
    by (simp add: less_Suc_eq numeral_2_eq_2 fails_twice_outcomes)
  have "case deliverWebhook id id fails_twice ''http://localhost:3001'' ''{}'' None 3 of
          (r, tr) \<Rightarrow>
            r = Inr ()
            \<and> tr = concat (map (backoff (webhook_request id ''http://localhost:3001'' (id ''{}'') None))
                             [0..<2])
                     @ [Request (webhook_request id ''http://localhost:3001'' (id ''{}'') None)]
            \<and> attempts tr = 2 + 1
            \<and> delays tr = map (\<lambda>n. 2 ^ n * 1000) [0..<2]"
    using deliverWebhook_retries_with_backoff
            [of 3 fails_twice id "''http://localhost:3001''" id "''{}''" None,
             THEN conjunct2, THEN conjunct1, rule_format, of 2]
          prior fails_twice_outcomes(3)
    by simp
  then have first: "deliverWebhook id id fails_twice ''http://localhost:3001'' ''{}'' None 3 =
     (Inr (),
      [Request (webhook_request id ''http://localhost:3001'' ''{}'' None), Delay 1000,
       Request (webhook_request id ''http://localhost:3001'' ''{}'' None), Delay 2000,
       Request (webhook_request id ''http://localhost:3001'' ''{}'' None)])"
    by (simp add: two backoff_def split: prod.splits)
  have "case deliverWebhook id id always_unavailable ''http://localhost:3001'' ''{}'' None 3 of
          (r, tr) \<Rightarrow>
            r = Inl (caught (Error ''Webhook delivery failed: 503 Service Unavailable''))
            \<and> tr = concat (map (backoff (webhook_request id ''http://localhost:3001'' (id ''{}'') None))
                             [0..<nat 3 - 1])
                     @ [Request (webhook_request id ''http://localhost:3001'' (id ''{}'') None)]
            \<and> int (attempts tr) = 3
            \<and> delays tr = map (\<lambda>n. 2 ^ n * 1000) [0..<nat 3 - 1]"
    using deliverWebhook_retries_with_backoff
            [of 3 always_unavailable id "''http://localhost:3001''" id "''{}''" None
                "\<lambda>j. Error ''Webhook delivery failed: 503 Service Unavailable''",
             THEN conjunct2, THEN conjunct2, rule_format]
          always_unavailable_outcome
    by simp
  then have second: "deliverWebhook id id always_unavailable ''http://localhost:3001'' ''{}'' None 3 =
     (Inl (Error ''Webhook delivery failed: 503 Service Unavailable''),
      [Request (webhook_request id ''http://localhost:3001'' ''{}'' None), Delay 1000,
       Request (webhook_request id ''http://localhost:3001'' ''{}'' None), Delay 2000,
       Request (webhook_request id ''http://localhost:3001'' ''{}'' None)])"
    by (simp add: two backoff_def caught_def split: prod.splits)
  show ?thesis
    by (simp add: first second)
qed

section \<open>The pipeline controller's result\<close>



lemma deliverWebhook_succeeds_at:
  assumes "k < 3"
    and "\<forall>j<k. \<forall>req. \<exists>e. attempt_outcome d j req = Inl e"
    and "\<forall>req. attempt_outcome d k req = Inr ()"
  shows "deliverWebhook h s d u p sec 3 =
           (Inr (), concat (map (backoff (webhook_request h u (s p) sec)) [0..<k])
                      @ [Request (webhook_request h u (s p) sec)])"
  unfolding deliverWebhook_def
  using deliver_loop_success [of 0 k 3 d h u s p sec None "[]"] assms by simp




section \<open>The workflow's report keeps the fetch order\<close>

lemma analyze_two: "fst (analyzeTicketsStep two_item_model fetched_two 0) = Inr analyzed_two"
proof -
  have b: "slice [low_task, urgent_task] 0 batchSize = [low_task, urgent_task]"
    by (simp add: slice_def batchSize_def)
  have d: "analyze_loop two_item_model no_codebase [low_task, urgent_task] batchSize rs n
             = (Inr rs, n)" for rs n
    by (subst analyze_loop.simps) (simp add: batchSize_def)
  have "analyze_loop two_item_model no_codebase [low_task, urgent_task] 0 [] 0 =
          (Inr [\<lparr> ticket = low_task, analysis = mk_analysis 4 Feature \<rparr>,
                \<lparr> ticket = urgent_task, analysis = mk_analysis 4 Fix \<rparr>], 2)"
    by (subst analyze_loop.simps)
       (simp add: b d analyzeTicket_def two_item_model_def try_catch_def)
  then show ?thesis
    by (simp add: analyzeTicketsStep_def fetched_two_def analyzed_two_def)
qed

lemma upper_tags:
  "toUpperCase ''fix'' = ''FIX''" "toUpperCase ''feature'' = ''FEATURE''"
  by code_simp+

lemma show_nat_small:
  "show_nat 1 = ''1''" "show_nat 2 = ''2''" "show_nat (Suc 0) = ''1''" "show_nat (Suc (Suc 0)) = ''2''"
  by code_simp+

lemma accepts_outcome: "attempt_outcome accepts j r = Inr ()"
  by (simp add: attempt_outcome_def accepts_def ok_response_def response_ok_def)

text \<open>
  C1, evaluated. Two fetched items, the Low one first, analyzed as feature and fix, with a
  destination that accepts at once: the run succeeds with ticket count 2 and the webhook
  delivered after one request, and the report in the payload lists the items in the order
  they were fetched, the Low/feature item as number 1 and the Urgent/fix item as number 2.
  The formatter tool's \<open>sortTickets\<close> puts the same two items the other way round.
\<close>

theorem workflow_report_in_fetch_order:
  "analyze_then_deliver two_item_model (rt\<lparr>dest := accepts\<rparr>) fetched_two =
     Inr (\<lparr> success = True, result_ticketCount = 2, webhookDelivered = True,
            message = ''Successfully analyzed 2 tickets and delivered to webhook'' \<rparr>,
          [Request (webhook_request (sha256 rt) ''http://localhost:3001''
                      (JSON_stringify rt (step_payload (rt\<lparr>dest := accepts\<rparr>) analyzed_two)) None)])
   \<and> sprintMarkdown (step_payload (rt\<lparr>dest := accepts\<rparr>) analyzed_two) =
       join nl
         [''# Sprint: '' @ date_part (now rt 0),
          [],
          ''Synced from ClickUp List '' @ [CHR 0x22] @ ''Sprint '' @ date_part (now rt 1) @ [CHR 0x22] @
            '' at '' @ now rt 0,
          ''Total tickets: 2'',
          [],
          ''**Summary:**'',
          ''- Fixes: 1'',
          ''- Features: 1'',
          ''- Average Quality Score: '' @ meanToFixed1 rt [4, 4] @ ''/5'',
          [],
          ''## Tickets (ordered by priority)'',
          [],
          ''### 1. [FEATURE] Add dark mode'',
          ''- **ClickUp ID**: t1'',
          ''- **Status**: open'',
          ''- **Quality**: '' @ numberToString rt 4 @ ''/5'',
          ''- **Suggested approach**: Follow the existing pattern'',
          [],
          ''---'',
          [],
          ''### 2. [FIX] Fix login crash'',
          ''- **ClickUp ID**: t2'',
          ''- **Status**: open'',
          ''- **Quality**: '' @ numberToString rt 4 @ ''/5'',
          ''- **Suggested approach**: Follow the existing pattern'',
          [],
          ''---'',
          []]
   \<and> sortTickets (analyzedTickets analyzed_two) =
       [\<lparr> ticket = urgent_task, analysis = mk_analysis 4 Fix \<rparr>,
        \<lparr> ticket = low_task, analysis = mk_analysis 4 Feature \<rparr>]"
proof (intro conjI)
  have ne: "analyzedTickets analyzed_two \<noteq> []" "length (analyzedTickets analyzed_two) = 2"
    "webhookUrl analyzed_two = ''http://localhost:3001''" "webhookSecret analyzed_two = None"
    by (simp_all add: analyzed_two_def)
  have "deliverWebhook (sha256 rt) (JSON_stringify rt) accepts ''http://localhost:3001''
          (step_payload (rt\<lparr>dest := accepts\<rparr>) analyzed_two) None 3 =
        (Inr (), [Request (webhook_request (sha256 rt) ''http://localhost:3001''
                      (JSON_stringify rt (step_payload (rt\<lparr>dest := accepts\<rparr>) analyzed_two)) None)])"
    using deliverWebhook_succeeds_at [of 0 accepts "sha256 rt" "JSON_stringify rt"
            "''http://localhost:3001''" "step_payload (rt\<lparr>dest := accepts\<rparr>) analyzed_two" None]
    by (simp add: accepts_outcome)
  then have "formatAndDeliverStep (rt\<lparr>dest := accepts\<rparr>) analyzed_two =
     (\<lparr> success = True, result_ticketCount = 2, webhookDelivered = True,
        message = ''Successfully analyzed 2 tickets and delivered to webhook'' \<rparr>,
      [Request (webhook_request (sha256 rt) ''http://localhost:3001''
                  (JSON_stringify rt (step_payload (rt\<lparr>dest := accepts\<rparr>) analyzed_two)) None)])"
    by (simp add: formatAndDeliverStep_def ne default_retries_def show_nat_small)
  then show "analyze_then_deliver two_item_model (rt\<lparr>dest := accepts\<rparr>) fetched_two =
     Inr (\<lparr> success = True, result_ticketCount = 2, webhookDelivered = True,
            message = ''Successfully analyzed 2 tickets and delivered to webhook'' \<rparr>,
          [Request (webhook_request (sha256 rt) ''http://localhost:3001''
                      (JSON_stringify rt (step_payload (rt\<lparr>dest := accepts\<rparr>) analyzed_two)) None)])"
    by (simp add: analyze_then_deliver_def analyze_two)
next
  show "sprintMarkdown (step_payload (rt\<lparr>dest := accepts\<rparr>) analyzed_two) =
       join nl
         [''# Sprint: '' @ date_part (now rt 0),
          [],
          ''Synced from ClickUp List '' @ [CHR 0x22] @ ''Sprint '' @ date_part (now rt 1) @ [CHR 0x22] @
            '' at '' @ now rt 0,
          ''Total tickets: 2'',
          [],
          ''**Summary:**'',
          ''- Fixes: 1'',
          ''- Features: 1'',
          ''- Average Quality Score: '' @ meanToFixed1 rt [4, 4] @ ''/5'',
          [],
          ''## Tickets (ordered by priority)'',
          [],
          ''### 1. [FEATURE] Add dark mode'',
          ''- **ClickUp ID**: t1'',
          ''- **Status**: open'',
          ''- **Quality**: '' @ numberToString rt 4 @ ''/5'',
          ''- **Suggested approach**: Follow the existing pattern'',
          [],
          ''---'',
          [],
          ''### 2. [FIX] Fix login crash'',
          ''- **ClickUp ID**: t2'',
          ''- **Status**: open'',
          ''- **Quality**: '' @ numberToString rt 4 @ ''/5'',
          ''- **Suggested approach**: Follow the existing pattern'',
          [],
          ''---'',
          []]"
    unfolding step_payload_def Let_def step_markdown_lines_def item_lines_def analyzed_two_def
      low_task_def urgent_task_def mk_task_def mk_analysis_def
    by (simp add: upper_tags show_nat_small enumerate_eq_zip upt_rec_numeral or_default_def
          del: join.simps)
next
  show "sortTickets (analyzedTickets analyzed_two) =
       [\<lparr> ticket = urgent_task, analysis = mk_analysis 4 Fix \<rparr>,
        \<lparr> ticket = low_task, analysis = mk_analysis 4 Feature \<rparr>]"
    by code_simp
qed

section \<open>Signing and verification\<close>

lemma signature_header:
  "S \<noteq> [] \<Longrightarrow>
     header (webhook_request h u body (Some S)) ''x-sprint-pilot-signature'' =
       Some (''sha256='' @ hmac_sha256_hex h S body)"
proof -
  have "toLowerCase ''Content-Type'' = ''content-type''"
       "toLowerCase ''User-Agent'' = ''user-agent''"
       "toLowerCase ''X-Sprint-Pilot-Signature'' = ''x-sprint-pilot-signature''"
    by code_simp+
  then show "S \<noteq> [] \<Longrightarrow> ?thesis"
    by (simp add: header_def webhook_request_def signature_of_def)
qed

lemma unsigned_header:
  "header (webhook_request h u body None) ''x-sprint-pilot-signature'' = None"
proof -
  have "toLowerCase ''Content-Type'' = ''content-type''"
       "toLowerCase ''User-Agent'' = ''user-agent''"
    by code_simp+
  then show ?thesis
    by (simp add: header_def webhook_request_def signature_of_def)
qed

lemma of_char_hex_digit:
  "d < 16 \<Longrightarrow> (of_char (hex_digit d) :: nat) = (if d < 10 then 48 + d else 87 + d)"
  by (simp add: hex_digit_def)

lemma hex_digit_inject:
  assumes "a < 16" "b < 16" "hex_digit a = hex_digit b"
  shows "a = b"
proof -
  have "(of_char (hex_digit a) :: nat) = of_char (hex_digit b)"
    using assms(3) by simp
  then show ?thesis
    using assms(1,2) by (simp add: of_char_hex_digit split: if_splits)
qed

lemma hex_of_byte_inject:
  assumes "hex_of_byte c = hex_of_byte d"
  shows "c = d"
proof -
  let ?m = "of_char c :: nat" and ?n = "of_char d :: nat"
  have "?m mod 256 = ?m" "?n mod 256 = ?n"
    by simp_all
  then have lt: "?m < 256" "?n < 256"
    by (metis mod_less_divisor zero_less_numeral)+
  then have q: "?m div 16 < 16" "?n div 16 < 16"
    by (simp_all add: less_mult_imp_div_less)
  have "hex_digit (?m div 16) = hex_digit (?n div 16)" "hex_digit (?m mod 16) = hex_digit (?n mod 16)"
    using assms by (simp_all add: hex_of_byte_def Let_def)
  then have "?m div 16 = ?n div 16" "?m mod 16 = ?n mod 16"
    using q by (auto intro: hex_digit_inject)
  then have "?m = ?n"
    by (metis div_mult_mod_eq)
  then show ?thesis
    by simp
qed

lemma hex_inject: "hex a = hex b \<Longrightarrow> a = b"
proof (induction a arbitrary: b)
  case Nil
  then show ?case
    by (cases b) (simp_all add: hex_def hex_of_byte_def Let_def)
next
  case (Cons x xs)
  then obtain y ys where b: "b = y # ys"
    by (cases b) (simp_all add: hex_def hex_of_byte_def Let_def)
  have l: "length (hex_of_byte x) = length (hex_of_byte y)"
    by (simp add: hex_of_byte_def Let_def)
  have "hex_of_byte x @ hex xs = hex_of_byte y @ hex ys"
    using Cons.prems b by (simp add: hex_def)
  then have "hex_of_byte x = hex_of_byte y" "hex xs = hex ys"
    using l by simp_all
  then show ?case
    using Cons.IH hex_of_byte_inject b by simp
qed

text \<open>Keys that differ only by trailing zero bytes have the same key block.\<close>

lemma key_block_zero_padded:
  assumes "length key < 64"
  shows "key_block H 64 (key @ [CHR 0x00]) = key_block H 64 key"
proof -
  have "64 - length key = Suc (64 - length (key @ [CHR 0x00]))"
    using assms by simp
  then have "replicate (64 - length key) (CHR 0x00) =
               CHR 0x00 # replicate (64 - length (key @ [CHR 0x00])) (CHR 0x00)"
    by (metis replicate_Suc)
  then have pad: "(key @ [CHR 0x00]) @ replicate (64 - length (key @ [CHR 0x00])) (CHR 0x00) =
                    key @ replicate (64 - length key) (CHR 0x00)"
    by simp
  have short: "\<not> 64 < length (key @ [CHR 0x00])" "\<not> 64 < length key"
    using assms by simp_all
  show ?thesis
    unfolding key_block_def Let_def
    by (simp only: short if_False pad)
qed

text \<open>The HMAC depends on the key through its key block only.\<close>

lemma hmac_same_key_block:
  "key_block H B key' = key_block H B key \<Longrightarrow> hmac H B key' data = hmac H B key data"
  by (simp add: hmac_def)

text \<open>
  The key block has the size of a block for a key of at most a block, and for a longer key
  whose digest is at most a block.
\<close>

lemma length_key_block:
  "length key \<le> B \<or> length (H key) \<le> B \<Longrightarrow> length (key_block H B key) = B"
  by (auto simp: key_block_def Let_def)

lemma xor_nat_cancel: "(a::nat) XOR b = a XOR c \<Longrightarrow> b = c"
proof -
  assume h: "a XOR b = a XOR c"
  have "b = a XOR (a XOR b)"
    by (simp flip: xor.assoc)
  also have "\<dots> = a XOR (a XOR c)"
    by (simp add: h)
  also have "\<dots> = c"
    by (simp flip: xor.assoc)
  finally show ?thesis .
qed

lemma take_bit_of_char: "take_bit 8 (of_char c :: nat) = of_char c"
  by (simp add: take_bit_eq_mod)

lemma of_char_xor_char: "(of_char (xor_char c x) :: nat) = of_char c XOR of_char x"
proof -
  have "(of_char (xor_char c x) :: nat) = take_bit 8 ((of_char c :: nat) XOR of_char x)"
    by (simp add: xor_char_def take_bit_eq_mod)
  also have "\<dots> = of_char c XOR of_char x"
    by (simp only: take_bit_xor take_bit_of_char)
  finally show ?thesis .
qed

lemma xor_char_inject: "xor_char c d = xor_char c e \<Longrightarrow> d = e"
proof -
  assume "xor_char c d = xor_char c e"
  then have "(of_char (xor_char c d) :: nat) = of_char (xor_char c e)"
    by simp
  then have "(of_char c :: nat) XOR of_char d = (of_char c :: nat) XOR of_char e"
    by (simp only: of_char_xor_char)
  then have "(of_char d :: nat) = of_char e"
    by (rule xor_nat_cancel)
  then show ?thesis
    by simp
qed

lemma map_xor_char_inject: "map (xor_char c) xs = map (xor_char c) ys \<Longrightarrow> xs = ys"
  by (rule map_injective) (auto simp: inj_def dest: xor_char_inject)

text \<open>
  With a hash that has no collision among the messages hashed in the two computations, and
  key blocks of one size, two HMAC values are equal only for equal key blocks and equal
  data.
\<close>

lemma hmac_eq_iff:
  assumes inj: "inj_on H (hashed H B key data \<union> hashed H B key' data')"
    and len: "length (key_block H B key') = length (key_block H B key)"
  shows "hmac H B key' data' = hmac H B key data
           \<longleftrightarrow> key_block H B key' = key_block H B key \<and> data' = data"
proof
  assume "key_block H B key' = key_block H B key \<and> data' = data"
  then show "hmac H B key' data' = hmac H B key data"
    by (simp add: hmac_def)
next
  let ?k = "key_block H B key" and ?k' = "key_block H B key'"
  let ?i = "map (xor_char (CHR 0x36)) ?k @ data"
  let ?i' = "map (xor_char (CHR 0x36)) ?k' @ data'"
  let ?o = "map (xor_char (CHR 0x5C)) ?k @ H ?i"
  let ?o' = "map (xor_char (CHR 0x5C)) ?k' @ H ?i'"
  have mem: "?i \<in> hashed H B key data \<union> hashed H B key' data'"
    "?o \<in> hashed H B key data \<union> hashed H B key' data'"
    "?i' \<in> hashed H B key data \<union> hashed H B key' data'"
    "?o' \<in> hashed H B key data \<union> hashed H B key' data'"
    by (simp_all add: hashed_def Let_def)
  assume "hmac H B key' data' = hmac H B key data"
  then have "H ?o' = H ?o"
    by (simp add: hmac_def Let_def)
  then have "?o' = ?o"
    using inj mem(2,4) by (meson inj_onD)
  then have k: "map (xor_char (CHR 0x5C)) ?k' = map (xor_char (CHR 0x5C)) ?k" and "H ?i' = H ?i"
    using len by simp_all
  then have "?i' = ?i"
    using inj mem(1,3) by (meson inj_onD)
  moreover have kk: "?k' = ?k"
    using k by (rule map_xor_char_inject)
  ultimately have "data' = data"
    by simp
  with kk show "key_block H B key' = key_block H B key \<and> data' = data"
    by simp
qed

lemma receiver_verify_signed:
  assumes "S' \<noteq> []"
    and "header r ''x-sprint-pilot-signature'' = Some (''sha256='' @ hmac_sha256_hex h S body)"
  shows "receiver_verify h (Some S') r =
           (if hmac h 64 S' (req_body r) = hmac h 64 S body then Accepted
            else Unauthorized ''Invalid signature'')"
  using assms
  by (auto simp: receiver_verify_def verifySignature_def hmac_sha256_hex_def dest: hex_inject)

lemma deliver_loop_requests:
  "\<forall>r. Request r \<in> set tr \<longrightarrow> r = webhook_request h u (s p) sec \<Longrightarrow>
   Request r \<in> set (snd (deliver_loop h s dst u p sec retries a le tr)) \<Longrightarrow>
   r = webhook_request h u (s p) sec"
proof (induction h s dst u p sec retries a le tr rule: deliver_loop.induct)
  case (1 h s dst u p sec retries a le tr)
  show ?case
  proof (cases "int a < retries")
    case False
    then show ?thesis
      using "1.prems" by (subst (asm) deliver_loop.simps) simp
  next
    case True
    show ?thesis
    proof (cases "attempt_outcome dst a (webhook_request h u (s p) sec)")
      case (Inr v)
      then show ?thesis
        using True "1.prems" by (subst (asm) deliver_loop.simps) (auto simp: Let_def)
    next
      case (Inl e)
      have inv: "\<forall>r. Request r \<in> set (tr @ [Request (webhook_request h u (s p) sec)] @
                   (if int a < retries - 1 then [Delay (2 ^ a * 1000)] else []))
                 \<longrightarrow> r = webhook_request h u (s p) sec"
        using "1.prems"(1) by auto
      have "Request r \<in> set (snd (deliver_loop h s dst u p sec retries (Suc a)
                 (Some (if instanceof_Error e then e else Error ''Unknown error''))
                 (tr @ [Request (webhook_request h u (s p) sec)] @
                   (if int a < retries - 1 then [Delay (2 ^ a * 1000)] else []))))"
        using True Inl "1.prems"(2) by (subst (asm) deliver_loop.simps) (simp add: Let_def)
      then show ?thesis
        using "1.IH" [OF True refl Inl inv] by simp
    qed
  qed
qed

text \<open>What the receiver makes of a body \<open>body'\<close> arriving with the header signed for \<open>body\<close>.\<close>

lemma header_of_changed_body:
  "header ((webhook_request h u body sec)\<lparr>req_body := body'\<rparr>) name =
     header (webhook_request h u body sec) name"
  by (simp add: header_def)

lemma receiver_verdict:
  assumes "S \<noteq> []" and "S' \<noteq> []"
  shows "receiver_verify h (Some S') ((webhook_request h u body (Some S))\<lparr>req_body := body'\<rparr>) =
           (if hmac h 64 S' body' = hmac h 64 S body then Accepted
            else Unauthorized ''Invalid signature'')"
  using receiver_verify_signed
          [of S' "(webhook_request h u body (Some S))\<lparr>req_body := body'\<rparr>" h S body] assms
  by (simp add: header_of_changed_body signature_header)

lemma same_request: "(webhook_request h u body sec)\<lparr>req_body := body\<rparr> = webhook_request h u body sec"
  by (simp add: webhook_request_def)

text \<open>
  C6, as the code has it. With a non-empty secret, every request the delivery client sends
  carries the header \<open>sha256=\<close> followed by the hex HMAC-SHA-256 of the exact body under
  that secret, and a receiver configured with the same secret accepts it. Given a hash
  without a collision among the messages hashed by the sender and by the receiver, a
  receiver with the same secret rejects every mutated body, and a receiver with another
  non-empty secret rejects the request, whatever the body, unless the two secrets have the
  same HMAC key block (the secret, hashed first when it is longer than 64 bytes, padded with
  zero bytes to 64); when they have the same key block it accepts. The two key blocks are
  taken to have one length, as they do when each secret, or its digest, has at most 64
  bytes. A receiver with a non-empty secret rejects a request without the header.
\<close>

theorem signature_round_trip:
  "(S \<noteq> [] \<longrightarrow>
      (\<forall>r. Request r \<in> set (snd (deliverWebhook h s dst u p (Some S) retries)) \<longrightarrow>
         header r ''x-sprint-pilot-signature'' = Some (''sha256='' @ hmac_sha256_hex h S (s p))
         \<and> req_body r = s p
         \<and> receiver_verify h (Some S) r = Accepted))
   \<and> (S \<noteq> [] \<and> body' \<noteq> body
        \<and> inj_on h (hashed h 64 S body \<union> hashed h 64 S body') \<longrightarrow>
        receiver_verify h (Some S) ((webhook_request h u body (Some S))\<lparr>req_body := body'\<rparr>) =
          Unauthorized ''Invalid signature'')
   \<and> (S \<noteq> [] \<and> S' \<noteq> [] \<and> key_block h 64 S' \<noteq> key_block h 64 S
        \<and> length (key_block h 64 S') = length (key_block h 64 S)
        \<and> inj_on h (hashed h 64 S body \<union> hashed h 64 S' body') \<longrightarrow>
        receiver_verify h (Some S') ((webhook_request h u body (Some S))\<lparr>req_body := body'\<rparr>) =
          Unauthorized ''Invalid signature'')
   \<and> (S \<noteq> [] \<and> S' \<noteq> [] \<and> key_block h 64 S' = key_block h 64 S \<longrightarrow>
        receiver_verify h (Some S') (webhook_request h u body (Some S)) = Accepted)
   \<and> (S' \<noteq> [] \<longrightarrow>
        receiver_verify h (Some S') (webhook_request h u body None) =
          Unauthorized ''Missing signature header'')"
proof (intro conjI allI impI)
  fix r
  assume S: "S \<noteq> []" and r: "Request r \<in> set (snd (deliverWebhook h s dst u p (Some S) retries))"
  have req: "r = webhook_request h u (s p) (Some S)"
    using deliver_loop_requests [of "[]" h u s p "Some S" r dst retries 0 None] r
    by (simp add: deliverWebhook_def)
  show "header r ''x-sprint-pilot-signature'' = Some (''sha256='' @ hmac_sha256_hex h S (s p))"
    using S by (simp add: req signature_header)
  show "req_body r = s p"
    by (simp add: req webhook_request_def)
  show "receiver_verify h (Some S) r = Accepted"
    using receiver_verify_signed [of S r h S "s p"] S
    by (simp add: req signature_header) (simp add: webhook_request_def)
next
  assume a: "S \<noteq> [] \<and> body' \<noteq> body \<and> inj_on h (hashed h 64 S body \<union> hashed h 64 S body')"
  then have "hmac h 64 S body' \<noteq> hmac h 64 S body"
    using hmac_eq_iff [of h 64 S body S body'] by simp
  then show "receiver_verify h (Some S) ((webhook_request h u body (Some S))\<lparr>req_body := body'\<rparr>) =
          Unauthorized ''Invalid signature''"
    using a by (simp add: receiver_verdict)
next
  assume a: "S \<noteq> [] \<and> S' \<noteq> [] \<and> key_block h 64 S' \<noteq> key_block h 64 S
        \<and> length (key_block h 64 S') = length (key_block h 64 S)
        \<and> inj_on h (hashed h 64 S body \<union> hashed h 64 S' body')"
  then have "hmac h 64 S' body' \<noteq> hmac h 64 S body"
    using hmac_eq_iff [of h 64 S body S' body'] by simp
  then show "receiver_verify h (Some S') ((webhook_request h u body (Some S))\<lparr>req_body := body'\<rparr>) =
          Unauthorized ''Invalid signature''"
    using a by (simp add: receiver_verdict)
next
  assume a: "S \<noteq> [] \<and> S' \<noteq> [] \<and> key_block h 64 S' = key_block h 64 S"
  then have "hmac h 64 S' body = hmac h 64 S body"
    by (simp add: hmac_def)
  then show "receiver_verify h (Some S') (webhook_request h u body (Some S)) = Accepted"
    using receiver_verdict [where S = S and S' = S' and h = h and u = u and body = body
                              and body' = body] a
    by (simp add: same_request)
next
  assume "S' \<noteq> []"
  then show "receiver_verify h (Some S') (webhook_request h u body None) =
          Unauthorized ''Missing signature header''"
    by (simp add: receiver_verify_def unsigned_header)
qed

lemma example_key_blocks:
  "key_block id 64 ''abd'' \<noteq> key_block id 64 ''abc''"
  "length (key_block id 64 ''abd'') = length (key_block id 64 ''abc'')"
  "key_block id 64 (''abc'' @ [CHR 0x00]) = key_block id 64 ''abc''"
proof -
  show "key_block id 64 ''abd'' \<noteq> key_block id 64 ''abc''"
    by (simp add: key_block_def)
  show "length (key_block id 64 ''abd'') = length (key_block id 64 ''abc'')"
    by (simp add: length_key_block)
  show "key_block id 64 (''abc'' @ [CHR 0x00]) = key_block id 64 ''abc''"
    by (rule key_block_zero_padded) simp
qed

theorem signature_round_trip_witness:
  "snd (deliverWebhook id id accepts ''http://localhost:3001'' ''{}'' (Some ''abc'') 3) =
       [Request (webhook_request id ''http://localhost:3001'' ''{}'' (Some ''abc''))]
   \<and> receiver_verify id (Some ''abc'')
       (webhook_request id ''http://localhost:3001'' ''{}'' (Some ''abc'')) = Accepted
   \<and> receiver_verify id (Some ''abc'')
       ((webhook_request id ''http://localhost:3001'' ''{}'' (Some ''abc''))\<lparr>req_body := ''{ }''\<rparr>) =
         Unauthorized ''Invalid signature''
   \<and> receiver_verify id (Some ''abd'')
       (webhook_request id ''http://localhost:3001'' ''{}'' (Some ''abc'')) =
         Unauthorized ''Invalid signature''
   \<and> receiver_verify id (Some ''abc'')
       (webhook_request id ''http://localhost:3001'' ''{}'' (Some (''abc'' @ [CHR 0x00]))) = Accepted
   \<and> receiver_verify id (Some ''abc'') (webhook_request id ''http://localhost:3001'' ''{}'' None) =
         Unauthorized ''Missing signature header''"
proof -
  note T = signature_round_trip
  have sent: "deliverWebhook id id accepts ''http://localhost:3001'' ''{}'' (Some ''abc'') 3 =
       (Inr (), [Request (webhook_request id ''http://localhost:3001'' ''{}'' (Some ''abc''))])"
    using deliverWebhook_succeeds_at [of 0 accepts id id "''http://localhost:3001''" "''{}''" "Some ''abc''"]
    by (simp add: accepts_outcome)
  have all: "\<forall>r. Request r \<in> set (snd (deliverWebhook id id accepts ''http://localhost:3001'' ''{}''
                                 (Some ''abc'') 3)) \<longrightarrow>
         receiver_verify id (Some ''abc'') r = Accepted"
    using T [of "''abc''" id id accepts "''http://localhost:3001''" "''{}''" 3, THEN conjunct1]
    by simp
  then have one: "receiver_verify id (Some ''abc'')
       (webhook_request id ''http://localhost:3001'' ''{}'' (Some ''abc'')) = Accepted"
    by (simp add: sent)
  have two: "receiver_verify id (Some ''abc'')
       ((webhook_request id ''http://localhost:3001'' ''{}'' (Some ''abc''))\<lparr>req_body := ''{ }''\<rparr>) =
         Unauthorized ''Invalid signature''"
    using T [where S = "''abc''" and h = id and body = "''{}''" and body' = "''{ }''"
               and u = "''http://localhost:3001''", THEN conjunct2, THEN conjunct1]
    by simp
  have "receiver_verify id (Some ''abd'')
       ((webhook_request id ''http://localhost:3001'' ''{}'' (Some ''abc''))\<lparr>req_body := ''{}''\<rparr>) =
         Unauthorized ''Invalid signature''"
    using T [where S = "''abc''" and S' = "''abd''" and h = id and body = "''{}''" and body' = "''{}''"
               and u = "''http://localhost:3001''", THEN conjunct2, THEN conjunct2, THEN conjunct1]
          example_key_blocks(1,2)
    by simp
  then have three: "receiver_verify id (Some ''abd'')
       (webhook_request id ''http://localhost:3001'' ''{}'' (Some ''abc'')) =
         Unauthorized ''Invalid signature''"
    by (simp add: same_request)
  have four: "receiver_verify id (Some ''abc'')
       (webhook_request id ''http://localhost:3001'' ''{}'' (Some (''abc'' @ [CHR 0x00]))) = Accepted"
    using T [where S = "''abc'' @ [CHR 0x00]" and S' = "''abc''" and h = id and body = "''{}''"
               and u = "''http://localhost:3001''",
             THEN conjunct2, THEN conjunct2, THEN conjunct2, THEN conjunct1]
          example_key_blocks(3)
    by simp
  have five: "receiver_verify id (Some ''abc'') (webhook_request id ''http://localhost:3001'' ''{}'' None) =
         Unauthorized ''Missing signature header''"
    using T [where S' = "''abc''" and h = id and body = "''{}''"
               and u = "''http://localhost:3001''",
             THEN conjunct2, THEN conjunct2, THEN conjunct2, THEN conjunct2]
    by simp
  show ?thesis
    using one two three four five by (simp add: sent)
qed

text \<open>
  C6 as stated fails in two places. A receiver configured with the secret \<open>abc\<close> accepts a
  request signed with the different secret made of \<open>abc\<close> and a trailing zero byte,
  whatever the hash function, because HMAC pads a short key with zero bytes. And a supplied
  secret that is the empty string counts as none: the client attaches no header, and a
  receiver configured with it accepts a request without the header.
\<close>

theorem verification_accepts_another_secret:
  "\<forall>h. ''abc'' @ [CHR 0x00] \<noteq> ''abc''
       \<and> receiver_verify h (Some ''abc'')
           (webhook_request h ''http://localhost:3001'' ''{}'' (Some (''abc'' @ [CHR 0x00]))) = Accepted
       \<and> header (webhook_request h ''http://localhost:3001'' ''{}'' (Some []))
           ''x-sprint-pilot-signature'' = None
       \<and> receiver_verify h (Some []) (webhook_request h ''http://localhost:3001'' ''{}'' None) =
           Accepted"
proof (intro allI conjI)
  show "''abc'' @ [CHR 0x00] \<noteq> ''abc''" by simp
next
  fix h :: "string \<Rightarrow> string"
  have "key_block h 64 (''abc'' @ [CHR 0x00]) = key_block h 64 ''abc''"
    by (rule key_block_zero_padded) simp
  then have "hmac h 64 ''abc'' ''{}'' = hmac h 64 (''abc'' @ [CHR 0x00]) ''{}''"
    by (simp add: hmac_def)
  then show "receiver_verify h (Some ''abc'')
           (webhook_request h ''http://localhost:3001'' ''{}'' (Some (''abc'' @ [CHR 0x00]))) = Accepted"
    using receiver_verdict [where S = "''abc'' @ [CHR 0x00]" and S' = "''abc''" and h = h
                              and u = "''http://localhost:3001''" and body = "''{}''"
                              and body' = "''{}''"]
    by (simp add: same_request)
next
  fix h :: "string \<Rightarrow> string"
  have "webhook_request h ''http://localhost:3001'' ''{}'' (Some []) =
          webhook_request h ''http://localhost:3001'' ''{}'' None"
    by (simp add: webhook_request_def signature_of_def)
  then show "header (webhook_request h ''http://localhost:3001'' ''{}'' (Some []))
           ''x-sprint-pilot-signature'' = None"
    by (simp add: unsigned_header)
next
  fix h :: "string \<Rightarrow> string"
  show "receiver_verify h (Some []) (webhook_request h ''http://localhost:3001'' ''{}'' None) =
           Accepted"
    by (simp add: receiver_verify_def)
qed

section \<open>The task source client's errors\<close>

lemma show_nat_codes:
  "show_nat 401 = ''401''" "show_nat 429 = ''429''" "show_nat 500 = ''500''"
  by code_simp+

lemma answering_fields:
  "getEnvVar (answering r) name = Inr ''configured''"
  "source (answering r) req = SettlesAfter 120 (Inr r)"
  "resolve_listId (answering r) (Some ''901'') = Inr ''901''"
  by (simp_all add: answering_def resolve_listId_def)

text \<open>
  What each client throws, for any surroundings in which the list id and the token resolve
  and the request is the one the client builds.
\<close>

lemma fetchClickUpTasks_not_ok:
  assumes "resolve_listId env lid = Inr l" and "getEnvVar env ''CLICKUP_API_TOKEN'' = Inr tok"
    and "fetch_with_abort 30000 (source env (clickup_request
           (CLICKUP_API_BASE @ ''/list/'' @ l @ ''/task?'' @
              encodeParams env [(''include_subtasks'', bool_toString sub)]) tok)) = Inr response"
    and "\<not> response_ok response"
  shows "fetchClickUpTasks env lid sub =
           Inl (Error (''ClickUp API error: '' @ show_nat (resp_status response) @ '' '' @
                         resp_statusText response))"
  using assms by (simp add: fetchClickUpTasks_def bind_err_def Let_def)

lemma fetchClickUpTasks_rejected:
  assumes "resolve_listId env lid = Inr l" and "getEnvVar env ''CLICKUP_API_TOKEN'' = Inr tok"
    and "fetch_with_abort 30000 (source env (clickup_request
           (CLICKUP_API_BASE @ ''/list/'' @ l @ ''/task?'' @
              encodeParams env [(''include_subtasks'', bool_toString sub)]) tok)) = Inl e"
  shows "fetchClickUpTasks env lid sub = Inl e"
  using assms by (simp add: fetchClickUpTasks_def bind_err_def Let_def)

lemma fetch_with_abort_timeout:
  "fetch_with_abort 30000 NoReply = Inl AbortError"
  "30000 \<le> ms \<Longrightarrow> fetch_with_abort 30000 (SettlesAfter ms outcome) = Inl AbortError"
  "ms < 30000 \<Longrightarrow> fetch_with_abort 30000 (SettlesAfter ms outcome) = outcome"
  by (simp_all add: fetch_with_abort_def)

lemma clickupSyncTool_not_ok:
  assumes "resolve_listId env lid = Inr l" and "getEnvVar env ''CLICKUP_API_TOKEN'' = Inr tok"
    and "fetch_with_abort 30000 (source env (clickup_request
           (CLICKUP_API_BASE @ ''/list/'' @ l @ ''/task?'' @
              encodeParams env ([(''include_subtasks'', bool_toString sub)] @
                (case statuses of None \<Rightarrow> [] | Some ss \<Rightarrow> map (\<lambda>s. (''statuses[]'', s)) ss))) tok))
           = Inr response"
    and "\<not> response_ok response"
  shows "clickupSyncTool env lid sub statuses =
           Inl (Error (if resp_status response = 429
                       then ''ClickUp API rate limit exceeded. Please try again later.''
                       else if resp_status response = 401
                       then ''Invalid ClickUp API token. Please check your CLICKUP_API_TOKEN environment variable.''
                       else ''ClickUp API error: '' @ show_nat (resp_status response) @ '' '' @
                              resp_statusText response))"
  using assms by (simp add: clickupSyncTool_def bind_err_def Let_def try_catch_def)

lemma clickupSyncTool_rejected:
  assumes "resolve_listId env lid = Inr l" and "getEnvVar env ''CLICKUP_API_TOKEN'' = Inr tok"
    and "fetch_with_abort 30000 (source env (clickup_request
           (CLICKUP_API_BASE @ ''/list/'' @ l @ ''/task?'' @
              encodeParams env ([(''include_subtasks'', bool_toString sub)] @
                (case statuses of None \<Rightarrow> [] | Some ss \<Rightarrow> map (\<lambda>s. (''statuses[]'', s)) ss))) tok))
           = Inl e"
  shows "clickupSyncTool env lid sub statuses =
           Inl (if e = AbortError then Error ''ClickUp API request timed out after 30 seconds''
                else if instanceof_Error e then e
                else Error ''Unknown error occurred while fetching ClickUp tasks'')"
  using assms
  by (cases e) (simp_all add: clickupSyncTool_def bind_err_def Let_def try_catch_def)

text \<open>
  C7, evaluated. The client the workflow runs (\<open>fetchClickUpTasks\<close>) throws the same
  generic error, carrying the status code, for 401, for 429 and for 500, and lets the
  abort of the 30-second timer through as it is; the tool (\<open>clickupSyncTool\<close>) throws an
  invalid-token error for 401, a rate-limit error for 429 and a timed-out error for the
  abort. Neither sends a second request.
\<close>

theorem fetchClickUpTasks_same_error_for_401_429:
  "fetchClickUpTasks (answering (status_response 401 ''Unauthorized'')) (Some ''901'') True =
     Inl (Error ''ClickUp API error: 401 Unauthorized'')
   \<and> fetchClickUpTasks (answering (status_response 429 ''Too Many Requests'')) (Some ''901'') True =
     Inl (Error ''ClickUp API error: 429 Too Many Requests'')
   \<and> fetchClickUpTasks (answering (status_response 500 ''Internal Server Error'')) (Some ''901'') True =
     Inl (Error ''ClickUp API error: 500 Internal Server Error'')
   \<and> fetchClickUpTasks ((answering ok_response)\<lparr>source := (\<lambda>req. NoReply)\<rparr>) (Some ''901'') True =
     Inl AbortError
   \<and> clickupSyncTool (answering (status_response 401 ''Unauthorized'')) (Some ''901'') True None =
     Inl (Error ''Invalid ClickUp API token. Please check your CLICKUP_API_TOKEN environment variable.'')
   \<and> clickupSyncTool (answering (status_response 429 ''Too Many Requests'')) (Some ''901'') True None =
     Inl (Error ''ClickUp API rate limit exceeded. Please try again later.'')
   \<and> clickupSyncTool (answering (status_response 500 ''Internal Server Error'')) (Some ''901'') True None =
     Inl (Error ''ClickUp API error: 500 Internal Server Error'')
   \<and> clickupSyncTool ((answering ok_response)\<lparr>source := (\<lambda>req. NoReply)\<rparr>) (Some ''901'') True None =
     Inl (Error ''ClickUp API request timed out after 30 seconds'')"
proof -
  have nok: "\<not> response_ok (status_response 401 t)" "\<not> response_ok (status_response 429 t)"
    "\<not> response_ok (status_response 500 t)" for t
    by (simp_all add: response_ok_def status_response_def)
  have st: "resp_status (status_response c t) = c" "resp_statusText (status_response c t) = t" for c t
    by (simp_all add: status_response_def)
  have f: "fetchClickUpTasks (answering (status_response c t)) (Some ''901'') True =
             Inl (Error (''ClickUp API error: '' @ show_nat c @ '' '' @ t))"
    if "\<not> response_ok (status_response c t)" for c t
    using fetchClickUpTasks_not_ok [of "answering (status_response c t)" "Some ''901''" "''901''"
            "''configured''" True "status_response c t"] that
    by (simp add: answering_fields fetch_with_abort_timeout st)
  have g: "clickupSyncTool (answering (status_response c t)) (Some ''901'') True None =
           Inl (Error (if c = 429
                       then ''ClickUp API rate limit exceeded. Please try again later.''
                       else if c = 401
                       then ''Invalid ClickUp API token. Please check your CLICKUP_API_TOKEN environment variable.''
                       else ''ClickUp API error: '' @ show_nat c @ '' '' @ t))"
    if "\<not> response_ok (status_response c t)" for c t
    using clickupSyncTool_not_ok [of "answering (status_response c t)" "Some ''901''" "''901''"
            "''configured''" True None "status_response c t"] that
    by (simp add: answering_fields fetch_with_abort_timeout st)
  have quiet: "getEnvVar ((answering r)\<lparr>source := s\<rparr>) name = Inr ''configured''"
    "resolve_listId ((answering r)\<lparr>source := s\<rparr>) (Some ''901'') = Inr ''901''" for r s name
    by (simp_all add: answering_def resolve_listId_def)
  have t1: "fetchClickUpTasks ((answering ok_response)\<lparr>source := (\<lambda>req. NoReply)\<rparr>) (Some ''901'') True =
     Inl AbortError"
    using fetchClickUpTasks_rejected [of "(answering ok_response)\<lparr>source := (\<lambda>req. NoReply)\<rparr>"
            "Some ''901''" "''901''" "''configured''" True AbortError]
    by (simp add: quiet answering_fields fetch_with_abort_timeout)
  have t2: "clickupSyncTool ((answering ok_response)\<lparr>source := (\<lambda>req. NoReply)\<rparr>) (Some ''901'') True None =
     Inl (Error ''ClickUp API request timed out after 30 seconds'')"
    using clickupSyncTool_rejected [of "(answering ok_response)\<lparr>source := (\<lambda>req. NoReply)\<rparr>"
            "Some ''901''" "''901''" "''configured''" True None AbortError]
    by (simp add: quiet answering_fields fetch_with_abort_timeout)
  show ?thesis
    using f [OF nok(1)] f [OF nok(2)] f [OF nok(3)] g [OF nok(1)] g [OF nok(2)] g [OF nok(3)] t1 t2
    by (simp add: show_nat_codes)
qed

section \<open>Items that fail strict validation\<close>

lemma get_prop_non_null: "t \<noteq> JNull \<Longrightarrow> get_prop t k = Inr (optional_get (Some t) k)"
  by (cases t) (simp_all add: get_prop_def optional_get_def)

text \<open>
  An item other than \<open>null\<close> that fails validation, and whose id and name convert to
  text, is replaced by the fallback object: the id through \<open>String\<close>, the name through
  \<open>String\<close> with the default \<open>Untitled Task\<close>, the status \<open>unknown\<close> unless the item has
  a truthy \<open>status.status\<close>, and every other field the item's own value when that is
  truthy, else null, the empty array or the empty string.
\<close>

lemma coerce_task_non_null:
  assumes "t \<noteq> JNull"
    and "String_of f (optional_get (Some t) ''id'') = Inr i"
    and "String_of f (Some (or_else (optional_get (Some t) ''name'') (JString ''Untitled Task'')))
           = Inr n"
  shows "coerce_task f t =
           Inr \<lparr> c_id = i,
                 c_name = n,
                 c_description = or_else (optional_get (Some t) ''description'') JNull,
                 c_status_status = or_else (optional_get (optional_get (Some t) ''status'') ''status'')
                                     (JString ''unknown''),
                 c_assignees = or_else (optional_get (Some t) ''assignees'') (JArray []),
                 c_priority = or_else (optional_get (Some t) ''priority'') JNull,
                 c_tags = or_else (optional_get (Some t) ''tags'') (JArray []),
                 c_due_date = or_else (optional_get (Some t) ''due_date'') JNull,
                 c_custom_fields = or_else (optional_get (Some t) ''custom_fields'') (JArray []),
                 c_url = or_else (optional_get (Some t) ''url'') (JString []) \<rparr>"
  using assms by (simp add: coerce_task_def bind_err_def get_prop_non_null)

text \<open>When the id does not convert to text, the fallback throws as well.\<close>

lemma coerce_task_id_throws:
  assumes "t \<noteq> JNull" and "String_of f (optional_get (Some t) ''id'') = Inl e"
  shows "coerce_task f t = Inl e"
  using assms by (simp add: coerce_task_def bind_err_def get_prop_non_null)

lemma String_of_scalar: "scalar v \<Longrightarrow> \<exists>s. String_of f v = Inr s"
  by (auto simp: scalar_def String_of_def split: option.splits json.splits)

lemma scalar_or_else: "scalar v \<Longrightarrow> scalar (Some (or_else v (JString d)))"
  by (cases v) (auto simp: scalar_def or_else_def split: json.splits)

lemma task_of_plain:
  assumes "t \<noteq> JNull" and "scalar (optional_get (Some t) ''id'')"
    and "scalar (optional_get (Some t) ''name'')"
  shows "\<exists>x. task_of f t = Inr x"
proof (cases "ClickUpTaskSchema_parse t")
  case (Some v)
  then show ?thesis by (simp add: task_of_def)
next
  case None
  obtain i where i: "String_of f (optional_get (Some t) ''id'') = Inr i"
    using String_of_scalar [OF assms(2)] by auto
  obtain n where n: "String_of f (Some (or_else (optional_get (Some t) ''name'')
                        (JString ''Untitled Task''))) = Inr n"
    using String_of_scalar [OF scalar_or_else [OF assms(3)]] by auto
  show ?thesis
    using None by (simp add: task_of_def coerce_task_non_null [OF assms(1) i n])
qed

lemma map_throwing_all:
  "\<forall>x \<in> set xs. \<exists>y. g x = Inr y \<Longrightarrow> \<exists>ys. map_throwing g xs = Inr ys \<and> length ys = length xs"
proof (induction xs)
  case Nil
  show ?case by simp
next
  case (Cons x xs)
  then obtain y ys where "g x = Inr y" "map_throwing g xs = Inr ys" "length ys = length xs"
    by auto
  then show ?case
    by (simp add: bind_err_def)
qed

text \<open>
  No item is dropped and the fetch is not aborted, as long as no item is \<open>null\<close> and no
  item has an array or an object for its id or its name.
\<close>

lemma map_tasks_plain:
  assumes "\<forall>t \<in> set items. t \<noteq> JNull \<and> scalar (optional_get (Some t) ''id'')
                                \<and> scalar (optional_get (Some t) ''name'')"
  shows "\<exists>ts. map_tasks (task_of f) (JObject [(''tasks'', JArray items)]) = Inr ts
              \<and> length ts = length items"
proof -
  have "\<forall>x \<in> set items. \<exists>y. task_of f x = Inr y"
    using assms task_of_plain by blast
  from map_throwing_all [OF this] show ?thesis
    by (simp add: map_tasks_def bind_err_def get_prop_def)
qed

lemma missing_status_gives_unknown:
  "task_of f (JObject [(''id'', JNumber 42), (''name'', JString ''Broken export'')]) =
     Inr (Coerced \<lparr> c_id = f 42, c_name = ''Broken export'', c_description = JNull,
                    c_status_status = JString ''unknown'', c_assignees = JArray [],
                    c_priority = JNull, c_tags = JArray [], c_due_date = JNull,
                    c_custom_fields = JArray [], c_url = JString [] \<rparr>)"
  by (simp add: task_of_def ClickUpTaskSchema_parse_def parse_string_def coerce_task_def
        bind_err_def get_prop_def optional_get_def or_else_def String_of_def)

lemma object_id_with_own_toString_throws:
  "task_of f (JObject [(''id'', JObject [(''toString'', JNumber 1)]), (''name'', JString ''x'')]) =
     Inl (TypeError ''Cannot convert object to primitive value'')"
  by (simp add: task_of_def ClickUpTaskSchema_parse_def parse_string_def coerce_task_def
        bind_err_def get_prop_def String_of_def)

text \<open>
  C8, evaluated. The item \<open>null\<close> fails strict validation, and the fallback then reads
  \<open>id\<close> from it: the \<open>TypeError\<close> leaves the \<open>map\<close> callback and the whole fetch rejects,
  in the workflow's client and in the tool, although the other item of the response is
  valid. An item that merely lacks its status is coerced, with status \<open>unknown\<close>; the
  workflow's client turns its numeric id into a string, the tool keeps the number.
\<close>

theorem fetchClickUpTasks_aborted_by_null_item:
  "ClickUpTaskSchema_parse JNull = None
   \<and> fetchClickUpTasks
       (answering (body_response (JObject [(''tasks'',
          JArray [JObject [(''id'', JString ''t1''), (''name'', JString ''Add dark mode''),
                           (''status'', JObject [(''status'', JString ''open'')])],
                  JNull])])))
       (Some ''901'') True =
     Inl (TypeError ''Cannot read properties of null (reading 'id')'')
   \<and> clickupSyncTool
       (answering (body_response (JObject [(''tasks'',
          JArray [JObject [(''id'', JString ''t1''), (''name'', JString ''Add dark mode''),
                           (''status'', JObject [(''status'', JString ''open'')])],
                  JNull])])))
       (Some ''901'') True None =
     Inl (TypeError ''Cannot read properties of null (reading 'id')'')
   \<and> fetchClickUpTasks
       (answering (body_response (JObject [(''tasks'',
          JArray [JObject [(''id'', JNumber 42), (''name'', JString ''Broken export'')]])])))
       (Some ''901'') True =
     Inr ([Coerced \<lparr> c_id = ''42'', c_name = ''Broken export'', c_description = JNull,
                     c_status_status = JString ''unknown'', c_assignees = JArray [],
                     c_priority = JNull, c_tags = JArray [], c_due_date = JNull,
                     c_custom_fields = JArray [], c_url = JString [] \<rparr>], ''901'')
   \<and> clickupSyncTool
       (answering (body_response (JObject [(''tasks'',
          JArray [JObject [(''id'', JNumber 42), (''name'', JString ''Broken export'')]])])))
       (Some ''901'') True None =
     Inr ([Coerced \<lparr> c_id = Some (JNumber 42), c_name = JString ''Broken export'',
                     c_description = JNull,
                     c_status_status = JString ''unknown'', c_assignees = JArray [],
                     c_priority = JNull, c_tags = JArray [], c_due_date = JNull,
                     c_custom_fields = JArray [], c_url = JString [] \<rparr>], ''901'')"
  by code_simp

section \<open>Priority ranks\<close>

lemma toLowerChar_idem: "toLowerChar (toLowerChar c) = toLowerChar c"
  unfolding toLowerChar_def Let_def by simp

lemma toLowerCase_idem: "toLowerCase (toLowerCase s) = toLowerCase s"
  by (simp add: toLowerCase_def toLowerChar_idem)

lemma toLowerCase_Nil: "toLowerCase s = [] \<longleftrightarrow> s = []"
  by (simp add: toLowerCase_def)

text \<open>The rank of a label is the rank of its lower-case form.\<close>

lemma getPriorityOrder_lower:
  "getPriorityOrder (Some (toLowerCase s)) = getPriorityOrder (Some s)"
  by (simp add: getPriorityOrder_def toLowerCase_idem toLowerCase_Nil)

lemma toLowerChar_not_upper:
  "\<not> (65 \<le> (of_char (toLowerChar c) :: nat) \<and> (of_char (toLowerChar c) :: nat) \<le> 90)"
  unfolding toLowerChar_def Let_def by simp

lemma toLowerCase_neq_upper:
  assumes "c \<in> set n" and "65 \<le> (of_char c :: nat)" and "(of_char c :: nat) \<le> 90"
  shows "toLowerCase s \<noteq> n"
proof
  assume "toLowerCase s = n"
  then obtain d where "c = toLowerChar d"
    using assms(1) by (auto simp: toLowerCase_def)
  then show False
    using toLowerChar_not_upper [of d] assms(2,3) by simp
qed

lemma toLowerCase_inherited:
  "toLowerCase s \<in> set Object_prototype_names \<longleftrightarrow>
     toLowerCase s = ''constructor'' \<or> toLowerCase s = ''__proto__''"
proof -
  have "toLowerCase s \<noteq> ''hasOwnProperty''"
    by (rule toLowerCase_neq_upper [of "CHR ''O''"]) simp_all
  moreover have "toLowerCase s \<noteq> ''isPrototypeOf''"
    by (rule toLowerCase_neq_upper [of "CHR ''O''"]) simp_all
  moreover have "toLowerCase s \<noteq> ''propertyIsEnumerable''"
    by (rule toLowerCase_neq_upper [of "CHR ''I''"]) simp_all
  moreover have "toLowerCase s \<noteq> ''toLocaleString''"
    by (rule toLowerCase_neq_upper [of "CHR ''S''"]) simp_all
  moreover have "toLowerCase s \<noteq> ''toString''"
    by (rule toLowerCase_neq_upper [of "CHR ''S''"]) simp_all
  moreover have "toLowerCase s \<noteq> ''valueOf''"
    by (rule toLowerCase_neq_upper [of "CHR ''O''"]) simp_all
  moreover have "toLowerCase s \<noteq> ''__defineGetter__''"
    by (rule toLowerCase_neq_upper [of "CHR ''G''"]) simp_all
  moreover have "toLowerCase s \<noteq> ''__defineSetter__''"
    by (rule toLowerCase_neq_upper [of "CHR ''S''"]) simp_all
  moreover have "toLowerCase s \<noteq> ''__lookupGetter__''"
    by (rule toLowerCase_neq_upper [of "CHR ''G''"]) simp_all
  moreover have "toLowerCase s \<noteq> ''__lookupSetter__''"
    by (rule toLowerCase_neq_upper [of "CHR ''S''"]) simp_all
  ultimately show ?thesis
    by (simp add: Object_prototype_names_def)
qed

text \<open>
  The rank of every label: 1 to 4 for the four known labels in any case, the inherited
  member for the two labels that name one, and 5 for every other label and for an absent
  one.
\<close>

lemma getPriorityOrder_cases:
  "getPriorityOrder (Some s) =
     (if toLowerCase s = ''urgent'' then Number 1
      else if toLowerCase s = ''high'' then Number 2
      else if toLowerCase s = ''normal'' then Number 3
      else if toLowerCase s = ''low'' then Number 4
      else if toLowerCase s = ''constructor'' \<or> toLowerCase s = ''__proto__''
        then Inherited (toLowerCase s)
      else Number 5)"
proof (cases "s = []")
  case True
  then show ?thesis
    by (simp add: getPriorityOrder_def toLowerCase_def)
next
  case False
  then show ?thesis
    using toLowerCase_inherited [of s]
    by (simp add: getPriorityOrder_def PRIORITY_ORDER_get_def PRIORITY_ORDER_def)
qed

lemma getPriorityOrder_None: "getPriorityOrder None = Number 5"
  by (simp add: getPriorityOrder_def)

lemma getPriorityOrder_urgent_any_case:
  "getPriorityOrder (Some ''URGENT'') = Number 1"
  "getPriorityOrder (Some ''Urgent'') = Number 1"
  "getPriorityOrder (Some ''urgent'') = Number 1"
  by code_simp+

text \<open>
  C10, evaluated. The labels \<open>constructor\<close> and \<open>__proto__\<close>, in any case, are outside the
  four known labels, and their rank is not 5: the lookup in the rank table finds the member
  of that name which every object inherits, and returns it.
\<close>

theorem getPriorityOrder_inherited_names:
  "getPriorityOrder (Some ''constructor'') = Inherited ''constructor''
   \<and> getPriorityOrder (Some ''Constructor'') = Inherited ''constructor''
   \<and> getPriorityOrder (Some ''__proto__'') = Inherited ''__proto__''
   \<and> getPriorityOrder (Some ''constructor'') \<noteq> Number 5
   \<and> getPriorityOrder (Some ''URGENT'') = Number 1
   \<and> getPriorityOrder (Some ''someday'') = Number 5
   \<and> getPriorityOrder None = Number 5"
  by code_simp

section \<open>The formatter's sort\<close>

lemma compare_same_keys: "same_keys a b \<Longrightarrow> compareTickets a b = Num 0"
  by (simp add: same_keys_def compareTickets_def)

lemma same_keys_sym: "same_keys a b \<Longrightarrow> same_keys b a"
  by (simp add: same_keys_def)

lemma same_keys_trans: "same_keys a b \<Longrightarrow> same_keys b c \<Longrightarrow> same_keys a c"
  by (simp add: same_keys_def)

lemma filter_sort_insert_other:
  "\<not> P x \<Longrightarrow> filter P (sort_insert c x ys) = filter P ys"
  by (induction ys) simp_all

lemma filter_sort_insert_same:
  assumes "same_keys a x"
  shows "filter (same_keys a) (sort_insert compareTickets x ys) = x # filter (same_keys a) ys"
proof (induction ys)
  case Nil
  show ?case using assms by simp
next
  case (Cons y ys)
  show ?case
  proof (cases "SortCompare compareTickets x y \<le> 0")
    case True
    then show ?thesis using assms by simp
  next
    case False
    have "\<not> same_keys a y"
    proof
      assume "same_keys a y"
      then have "same_keys x y"
        using assms same_keys_sym same_keys_trans by blast
      then show False
        using False by (simp add: SortCompare_def compare_same_keys)
    qed
    then show ?thesis
      using False Cons.IH by simp
  qed
qed

lemma stable_insertion_same_keys:
  "filter (same_keys a) (foldr (sort_insert compareTickets) ts []) = filter (same_keys a) ts"
proof (induction ts)
  case Nil
  show ?case by simp
next
  case (Cons t ts)
  show ?case
  proof (cases "same_keys a t")
    case True
    then show ?thesis
      by (simp add: filter_sort_insert_same Cons.IH)
  next
    case False
    then show ?thesis
      by (simp add: filter_sort_insert_other Cons.IH)
  qed
qed

lemma mset_sort_insert: "mset (sort_insert c x ys) = add_mset x (mset ys)"
  by (induction ys) simp_all

lemma mset_sortTickets: "mset (sortTickets ts) = mset ts"
  by (induction ts) (simp_all add: sortTickets_def Array_sort_def mset_sort_insert)

lemma set_sortTickets: "set (sortTickets ts) = set ts"
  using mset_sortTickets [of ts] by (metis set_mset_mset)

lemma ranked_Number: "ranked a \<Longrightarrow> getPriorityOrder (priority_of a) = Number (rank a)"
  by (cases "getPriorityOrder (priority_of a)") (simp_all add: ranked_def rank_def)

lemma complexity_cases: "c = Fix \<or> c = Feature"
  by (cases c) simp_all

text \<open>On tickets whose rank is a number the comparator decides the documented order.\<close>

lemma compare_precedes:
  assumes "ranked a" and "ranked b"
  shows "SortCompare compareTickets a b \<le> 0 \<longleftrightarrow> precedes a b"
  using complexity_cases [of "complexityTag (analysis a)"]
        complexity_cases [of "complexityTag (analysis b)"]
  by (auto simp: SortCompare_def compareTickets_def Let_def precedes_def
        ranked_Number [OF assms(1)] ranked_Number [OF assms(2)])

lemma precedes_total: "precedes a b \<or> precedes b a"
  using complexity_cases [of "complexityTag (analysis a)"]
        complexity_cases [of "complexityTag (analysis b)"]
  by (auto simp: precedes_def)

lemma precedes_trans: "precedes a b \<Longrightarrow> precedes b c \<Longrightarrow> precedes a c"
  using complexity_cases [of "complexityTag (analysis a)"]
        complexity_cases [of "complexityTag (analysis b)"]
        complexity_cases [of "complexityTag (analysis c)"]
  unfolding precedes_def by (elim disjE conjE) auto

lemma sorted_sort_insert:
  assumes "ranked x" and "\<forall>y \<in> set ys. ranked y" and "sorted_wrt precedes ys"
  shows "sorted_wrt precedes (sort_insert compareTickets x ys)"
  using assms(2,3)
proof (induction ys)
  case Nil
  show ?case by simp
next
  case (Cons y ys)
  have ry: "ranked y" using Cons.prems(1) by simp
  show ?case
  proof (cases "SortCompare compareTickets x y \<le> 0")
    case True
    then have xy: "precedes x y"
      using compare_precedes [OF assms(1) ry] by simp
    have "\<forall>z \<in> set ys. precedes x z"
      using xy Cons.prems(2) precedes_trans by auto
    then show ?thesis
      using True xy Cons.prems(2) by simp
  next
    case False
    then have yx: "precedes y x"
      using compare_precedes [OF assms(1) ry] precedes_total [of x y] by simp
    have "set (sort_insert compareTickets x ys) = insert x (set ys)"
      using mset_sort_insert [of compareTickets x ys] by (metis set_mset_mset set_mset_add_mset_insert)
    then have "\<forall>z \<in> set (sort_insert compareTickets x ys). precedes y z"
      using yx Cons.prems(2) by simp
    moreover have "sorted_wrt precedes (sort_insert compareTickets x ys)"
      using Cons.IH Cons.prems by simp
    ultimately show ?thesis
      using False by simp
  qed
qed

text \<open>
  On a list in which no label is one of the two inherited names, the result is in the
  documented order: by rank, then by quality score from high to low, then fix before
  feature.
\<close>

lemma sortTickets_sorted:
  assumes "\<forall>t \<in> set ts. ranked t"
  shows "sorted_wrt precedes (sortTickets ts)"
  using assms
proof (induction ts)
  case Nil
  show ?case by (simp add: sortTickets_def Array_sort_def)
next
  case (Cons t ts)
  have s: "set (foldr (sort_insert compareTickets) ts []) = set ts"
    using set_sortTickets [of ts] by (simp add: sortTickets_def Array_sort_def)
  have "sorted_wrt precedes (foldr (sort_insert compareTickets) ts [])"
    using Cons by (simp add: sortTickets_def Array_sort_def)
  then have "sorted_wrt precedes (sort_insert compareTickets t (foldr (sort_insert compareTickets) ts []))"
    using sorted_sort_insert [of t "foldr (sort_insert compareTickets) ts []"] Cons.prems s by simp
  then show ?case
    by (simp add: sortTickets_def Array_sort_def)
qed

text \<open>
  The sort is stable: on such a list, the tickets that agree with \<open>a\<close> on the three keys
  appear in the result in their input order, and the result is a rearrangement of the input.
\<close>

lemma sortTickets_stable:
  assumes "\<forall>t \<in> set ts. ranked t"
  shows "filter (same_keys a) (sortTickets ts) = filter (same_keys a) ts"
    and "mset (sortTickets ts) = mset ts"
  by (simp add: sortTickets_def Array_sort_def stable_insertion_same_keys, rule mset_sortTickets)

text \<open>
  C4, evaluated. A ticket labelled \<open>constructor\<close> has a rank that is not a number; compared
  with the Urgent ticket the comparator returns NaN in both directions, which the sort takes
  as equal, so the unrecognized label stays ahead of the Urgent one, in the sorted list and
  in the report the formatter renders from it. With any label that ranks 5, such as
  \<open>someday\<close>, the Urgent ticket comes first.
\<close>

theorem sortTickets_inherited_label_not_last:
  "sortTickets [\<lparr> ticket = mk_task ''t3'' ''Tidy the backlog'' (Some ''constructor''),
                  analysis = mk_analysis 3 Feature \<rparr>,
                \<lparr> ticket = urgent_task, analysis = mk_analysis 3 Feature \<rparr>] =
     [\<lparr> ticket = mk_task ''t3'' ''Tidy the backlog'' (Some ''constructor''),
        analysis = mk_analysis 3 Feature \<rparr>,
      \<lparr> ticket = urgent_task, analysis = mk_analysis 3 Feature \<rparr>]
   \<and> compareTickets \<lparr> ticket = mk_task ''t3'' ''Tidy the backlog'' (Some ''constructor''),
                       analysis = mk_analysis 3 Feature \<rparr>
                     \<lparr> ticket = urgent_task, analysis = mk_analysis 3 Feature \<rparr> = NaN
   \<and> compareTickets \<lparr> ticket = urgent_task, analysis = mk_analysis 3 Feature \<rparr>
                     \<lparr> ticket = mk_task ''t3'' ''Tidy the backlog'' (Some ''constructor''),
                       analysis = mk_analysis 3 Feature \<rparr> = NaN
   \<and> sortTickets [\<lparr> ticket = mk_task ''t3'' ''Tidy the backlog'' (Some ''someday''),
                    analysis = mk_analysis 3 Feature \<rparr>,
                  \<lparr> ticket = urgent_task, analysis = mk_analysis 3 Feature \<rparr>] =
     [\<lparr> ticket = urgent_task, analysis = mk_analysis 3 Feature \<rparr>,
      \<lparr> ticket = mk_task ''t3'' ''Tidy the backlog'' (Some ''someday''),
        analysis = mk_analysis 3 Feature \<rparr>]
   \<and> sprintFormatter_lines example_format
       [\<lparr> ticket = mk_task ''t3'' ''Tidy the backlog'' (Some ''constructor''),
          analysis = mk_analysis 3 Feature \<rparr>,
        \<lparr> ticket = urgent_task, analysis = mk_analysis 3 Feature \<rparr>] example_metadata =
     Inr [''# Sprint: 2026-02-13'',
          [],
          ''Synced from ClickUp List '' @ [CHR 0x22] @ ''List 901'' @ [CHR 0x22] @
            '' at 2026-02-13T14:30:00.000Z'',
          ''Total tickets: 2'',
          [],
          ''**Summary:**'',
          ''- Fixes: 0'',
          ''- Features: 2'',
          ''- Average Quality Score: 3.0/5'',
          [],
          ''## Tickets (ordered by priority)'',
          [],
          join nl
            [''### 1. [FEATURE] Tidy the backlog'',
             ''- **ClickUp ID**: t3'',
             ''- **Status**: open'',
             ''- **Quality**: 3/5'',
             ''- **Complexity**: feature'',
             ''- **Priority**: constructor'',
             ''- **Affected files**: (none identified)'',
             ''- **Suggested approach**: Follow the existing pattern'',
             ''- **Agent**: /agent''],
          [],
          ''---'',
          [],
          join nl
            [''### 2. [FEATURE] Fix login crash'',
             ''- **ClickUp ID**: t2'',
             ''- **Status**: open'',
             ''- **Quality**: 3/5'',
             ''- **Complexity**: feature'',
             ''- **Priority**: Urgent'',
             ''- **Affected files**: (none identified)'',
             ''- **Suggested approach**: Follow the existing pattern'',
             ''- **Agent**: /agent''],
          [],
          ''---'',
          []]"
  by code_simp

end
